theory Spec2Isabelle
  imports Complex_Main
begin

section \<open>Strings\<close>

text \<open>
  A JavaScript string is a sequence of UTF-16 code units, each given by its numeric value
  (0 to 65535); \<open>length\<close> counts code units, as \<^verbatim>\<open>.length\<close> does.  Literals of the
  source are written with \<open>js\<close>.
\<close>

type_synonym jschar = nat
type_synonym jsstring = "jschar list"

definition js :: "string \<Rightarrow> jsstring" where
  "js s = map of_char s"

text \<open>
  The characters matched by \<^verbatim>\<open>\s\<close> and removed by \<^verbatim>\<open>String.prototype.trim\<close>:
  ECMAScript WhiteSpace and LineTerminator.
\<close>

definition isWhiteSpace :: "jschar \<Rightarrow> bool" where
  "isWhiteSpace c =
     (c \<in> set [0x09, 0x0A, 0x0B, 0x0C, 0x0D, 0x20, 0xA0, 0x1680, 0x2028, 0x2029,
                0x202F, 0x205F, 0x3000, 0xFEFF]
      \<or> (0x2000 \<le> c \<and> c \<le> 0x200A))"

definition trim :: "jsstring \<Rightarrow> jsstring" where
  "trim s = rev (dropWhile isWhiteSpace (rev (dropWhile isWhiteSpace s)))"

definition startsWith :: "jsstring \<Rightarrow> jsstring \<Rightarrow> bool" where
  "startsWith s p = (take (length p) s = p)"

definition endsWith :: "jsstring \<Rightarrow> jsstring \<Rightarrow> bool" where
  "endsWith s p = (length p \<le> length s \<and> drop (length s - length p) s = p)"

fun str_includes :: "jsstring \<Rightarrow> jsstring \<Rightarrow> bool" where
  "str_includes [] p = (p = [])"
| "str_includes (c # s) p = (startsWith (c # s) p \<or> str_includes s p)"

text \<open>\<^verbatim>\<open>parts.join(sep)\<close>\<close>

fun join :: "jsstring \<Rightarrow> jsstring list \<Rightarrow> jsstring" where
  "join sep [] = []"
| "join sep [x] = x"
| "join sep (x # y # ys) = x @ sep @ join sep (y # ys)"

section \<open>Model configuration and messages\<close>

definition maxContextTokens :: nat where "maxContextTokens = 131072"
definition maxCompletionTokens :: nat where "maxCompletionTokens = 32768"
definition charToTokenRatio :: nat where "charToTokenRatio = 4"

definition RATE_LIMIT :: jsstring where
  "RATE_LIMIT = js ''Service is experiencing high demand. Please wait a moment and try again.''"
definition PAYLOAD_TOO_LARGE :: jsstring where
  "PAYLOAD_TOO_LARGE = js ''Your prompt is too long. Please shorten it and try again.''"
definition PAYLOAD_TOO_LARGE_si :: jsstring where
  "PAYLOAD_TOO_LARGE_si = js ''Your content is too long. Please shorten it and try again.''"
definition NETWORK_TIMEOUT :: jsstring where
  "NETWORK_TIMEOUT = js ''Request timed out. Please check your connection and try again.''"
definition INVALID_API_KEY :: jsstring where
  "INVALID_API_KEY = js ''Service configuration error. Please contact support.''"
definition SERVICE_UNAVAILABLE :: jsstring where
  "SERVICE_UNAVAILABLE = js ''Service temporarily unavailable. Please try again in a few minutes.''"
definition GENERIC_ERROR :: jsstring where
  "GENERIC_ERROR = js ''An unexpected error occurred. Please try again.''"

section \<open>Token budget estimator\<close>

text \<open>\<^verbatim>\<open>Math.ceil(text.length / MODEL_CONFIG.charToTokenRatio)\<close>\<close>

definition estimateTokenCount :: "jsstring \<Rightarrow> nat" where
  "estimateTokenCount text =
     nat \<lceil>(of_nat (length text) :: rat) / of_nat charToTokenRatio\<rceil>"

text \<open>
  \<^verbatim>\<open>maxInputTokens = MODEL_CONFIG.maxContextTokens * 0.8\<close> and
  \<^verbatim>\<open>totalInputTokens <= maxInputTokens\<close>.  The product is the double nearest to
  104857.6, which lies strictly between 104857 and 104858; the left side is an integer, so
  the comparison in doubles and the comparison in rationals below agree on every total.
\<close>

definition maxInputTokens :: rat where
  "maxInputTokens = of_nat maxContextTokens * (8 / 10)"

definition validateTokenLimits :: "jsstring \<Rightarrow> jsstring \<Rightarrow> jsstring \<Rightarrow> bool" where
  "validateTokenLimits systemInstructions userMessage webData =
     (let systemTokens = estimateTokenCount systemInstructions;
          userTokens = estimateTokenCount userMessage;
          webTokens = estimateTokenCount webData;
          totalInputTokens = systemTokens + userTokens + webTokens
      in of_nat totalInputTokens \<le> maxInputTokens)"

text \<open>The self-improve endpoint's variant has no web component.\<close>

definition validateTokenLimits_si :: "jsstring \<Rightarrow> jsstring \<Rightarrow> bool" where
  "validateTokenLimits_si systemInstructions userMessage =
     (let systemTokens = estimateTokenCount systemInstructions;
          userTokens = estimateTokenCount userMessage;
          totalInputTokens = systemTokens + userTokens
      in of_nat totalInputTokens \<le> maxInputTokens)"

section \<open>Resilient completion invoker\<close>

text \<open>
  What the provider client rejects with: \<^verbatim>\<open>error.status\<close>, \<^verbatim>\<open>error.code\<close> and
  \<^verbatim>\<open>error.message\<close>, each possibly undefined.
\<close>

record provider_error =
  status :: "int option"
  code :: "jsstring option"
  message :: "jsstring option"

text \<open>
  The completion returned by the provider, read only through
  \<^verbatim>\<open>completion.choices[0]?.message?.content\<close> (\<open>None\<close> when that is undefined or null).
\<close>

record completion =
  content :: "jsstring option"

datatype 'a outcome = Resolved 'a | Rejected provider_error

record chat_message =
  msg_role :: jsstring
  msg_content :: jsstring

record chat_request =
  messages :: "chat_message list"
  temperature :: rat
  max_tokens :: nat

text \<open>
  The observable effects of a request: outbound calls and the backoff delays
  (\<open>None\<close> for a delay that is not a number, \<^verbatim>\<open>delays[attempt]\<close> out of range).
\<close>

datatype event =
    SearchCall jsstring
  | CompletionCall chat_request
  | Sleep "nat option"

text \<open>How an invocation ends: a value, a thrown \<^verbatim>\<open>Error(message)\<close>, or falling out of the loop.\<close>

datatype invoke_result = Returned completion | Threw jsstring | ReturnedUndefined

definition delays :: "nat list" where
  "delays = [1000, 2000, 4000]"

definition delay_at :: "nat \<Rightarrow> nat option" where
  "delay_at attempt = (if attempt < length delays then Some (delays ! attempt) else None)"

definition isTimeout :: "provider_error \<Rightarrow> bool" where
  "isTimeout e =
     (code e = Some (js ''ECONNABORTED'')
      \<or> (case message e of None \<Rightarrow> False | Some m \<Rightarrow> str_includes m (js ''timeout'')))"

definition isServerError :: "provider_error \<Rightarrow> bool" where
  "isServerError e = (case status e of None \<Rightarrow> False | Some st \<Rightarrow> st \<ge> 500)"

text \<open>
  The loop \<^verbatim>\<open>for (let attempt = 0; attempt < retries; attempt++)\<close> of
  \<^verbatim>\<open>callGroqWithRetry\<close>, entered at iteration \<open>attempt\<close>.  The provider is a function of
  the request and of the index of the call.  \<open>tooLarge\<close> is the endpoint's
  \<^verbatim>\<open>ERROR_MESSAGES.PAYLOAD_TOO_LARGE\<close>, the one message the two endpoints word differently.
\<close>

function retry_loop ::
  "jsstring \<Rightarrow> (chat_request \<Rightarrow> nat \<Rightarrow> completion outcome) \<Rightarrow> chat_request \<Rightarrow> nat \<Rightarrow> nat
     \<Rightarrow> invoke_result \<times> event list" where
  "retry_loop tooLarge groq req retries attempt =
     (if attempt < retries then
        (case groq req attempt of
           Resolved c \<Rightarrow> (Returned c, [CompletionCall req])
         | Rejected e \<Rightarrow>
             (let isLastAttempt = (attempt = retries - 1);
                  again = (\<lambda>d. let (r, tr) = retry_loop tooLarge groq req retries (attempt + 1)
                                in (r, CompletionCall req # Sleep d # tr));
                  throw = (\<lambda>m. (Threw m, [CompletionCall req]))
              in if status e = Some 429 then
                   (if \<not> isLastAttempt then again (map_option (\<lambda>d. d * 2) (delay_at attempt))
                    else throw RATE_LIMIT)
                 else if status e = Some 413 then throw tooLarge
                 else if isTimeout e then
                   (if \<not> isLastAttempt then again (delay_at attempt)
                    else throw NETWORK_TIMEOUT)
                 else if status e = Some 401 \<or> status e = Some 403 then throw INVALID_API_KEY
                 else if isServerError e then
                   (if \<not> isLastAttempt then again (delay_at attempt)
                    else throw SERVICE_UNAVAILABLE)
                 else if isLastAttempt then throw GENERIC_ERROR
                 else again (delay_at attempt)))
      else (ReturnedUndefined, []))"
  by pat_completeness auto
termination
  by (relation "measure (\<lambda>(tooLarge, groq, req, retries, attempt). retries - attempt)") auto

declare retry_loop.simps [simp del]

text \<open>
  \<^verbatim>\<open>callGroqWithRetry(messages, temperature, maxTokens, retries = 3)\<close>; the request sent
  caps \<^verbatim>\<open>max_tokens\<close> at the model's completion limit.
\<close>

definition callGroqWithRetry ::
  "jsstring \<Rightarrow> (chat_request \<Rightarrow> nat \<Rightarrow> completion outcome) \<Rightarrow> chat_message list \<Rightarrow> rat \<Rightarrow> nat \<Rightarrow> nat
     \<Rightarrow> invoke_result \<times> event list" where
  "callGroqWithRetry tooLarge groq msgs temp maxTokens retries =
     retry_loop tooLarge groq
       \<lparr>messages = msgs, temperature = temp, max_tokens = min maxTokens maxCompletionTokens\<rparr>
       retries 0"

section \<open>Regular expressions of the response normalizer\<close>

text \<open>
  A pattern is run as a backtracking matcher: applied to the text that starts at the
  current position, it yields the texts that remain after each way of matching, in the
  order in which the engine tries them, so the head of the list is the match the engine
  reports.
\<close>

type_synonym matcher = "jsstring \<Rightarrow> jsstring list"

definition lit :: "jsstring \<Rightarrow> matcher" where
  "lit p s = (if startsWith s p then [drop (length p) s] else [])"

text \<open>
  Under the \<^verbatim>\<open>i\<close> flag both sides are canonicalized.  Every pattern of the source is
  ASCII, and a code unit of 128 or more never canonicalizes to an ASCII one, so folding
  the ASCII letters decides every comparison against a pattern character.
\<close>

definition canonicalize :: "jschar \<Rightarrow> jschar" where
  "canonicalize c = (if 0x61 \<le> c \<and> c \<le> 0x7A then c - 0x20 else c)"

definition lit_i :: "jsstring \<Rightarrow> matcher" where
  "lit_i p s =
     (if length p \<le> length s \<and> map canonicalize (take (length p) s) = map canonicalize p
      then [drop (length p) s] else [])"

text \<open>A character class: one code unit satisfying the predicate.\<close>

definition cls :: "(jschar \<Rightarrow> bool) \<Rightarrow> matcher" where
  "cls P s = (case s of [] \<Rightarrow> [] | c # r \<Rightarrow> if P c then [r] else [])"

definition seq :: "matcher \<Rightarrow> matcher \<Rightarrow> matcher" where
  "seq m1 m2 s = concat (map m2 (m1 s))"

definition seqs :: "matcher list \<Rightarrow> matcher" where
  "seqs ms = foldr seq ms (\<lambda>s. [s])"

definition alt :: "matcher list \<Rightarrow> matcher" where
  "alt ms s = concat (map (\<lambda>m. m s) ms)"

text \<open>\<^verbatim>\<open>r?\<close>, greedy: with \<open>r\<close> first, then without.\<close>

definition opt :: "matcher \<Rightarrow> matcher" where
  "opt m s = m s @ [s]"

text \<open>\<^verbatim>\<open>c*\<close> and \<^verbatim>\<open>c+\<close> for a class \<open>c\<close>, greedy: the longest run first.\<close>

fun star :: "(jschar \<Rightarrow> bool) \<Rightarrow> matcher" where
  "star P [] = [[]]"
| "star P (c # s) = (if P c then star P s @ [c # s] else [c # s])"

definition plus :: "(jschar \<Rightarrow> bool) \<Rightarrow> matcher" where
  "plus P s = (case s of [] \<Rightarrow> [] | c # r \<Rightarrow> if P c then star P r else [])"

text \<open>\<^verbatim>\<open>$\<close> without the \<^verbatim>\<open>m\<close> flag: the end of the input.\<close>

definition eoi :: matcher where
  "eoi s = (if s = [] then [[]] else [])"

text \<open>
  \<^verbatim>\<open>^\<close> with the \<^verbatim>\<open>m\<close> flag: the start of the input or just after a line
  terminator.  \<open>prev\<close> is the code unit before the current position.
\<close>

definition isLineTerminator :: "jschar \<Rightarrow> bool" where
  "isLineTerminator c = (c \<in> set [0x0A, 0x0D, 0x2028, 0x2029])"

definition bol :: "jschar option \<Rightarrow> matcher" where
  "bol prev s = (case prev of None \<Rightarrow> [s] | Some c \<Rightarrow> if isLineTerminator c then [s] else [])"

text \<open>
  \<^verbatim>\<open>s.replace(/^.../, '')\<close> for a pattern anchored at the start of the input, and
  \<^verbatim>\<open>s.replace(/.../, '')\<close> for an unanchored one: the leftmost match is removed.
\<close>

definition replace_anchored :: "matcher \<Rightarrow> jsstring \<Rightarrow> jsstring" where
  "replace_anchored m s = (case m s of [] \<Rightarrow> s | r # _ \<Rightarrow> r)"

fun replace_first :: "matcher \<Rightarrow> jsstring \<Rightarrow> jsstring" where
  "replace_first m [] = (case m [] of [] \<Rightarrow> [] | r # _ \<Rightarrow> r)"
| "replace_first m (c # s) = (case m (c # s) of [] \<Rightarrow> c # replace_first m s | r # _ \<Rightarrow> r)"

text \<open>
  \<^verbatim>\<open>s.replace(/.../g, replacement)\<close>: matches are found left to right, each search
  resuming where the previous match ended (one code unit further after an empty match).
  \<open>f\<close> builds the replacement from the matched text.
\<close>

function replace_all ::
  "(jschar option \<Rightarrow> matcher) \<Rightarrow> (jsstring \<Rightarrow> jsstring) \<Rightarrow> jschar option \<Rightarrow> jsstring \<Rightarrow> jsstring" where
  "replace_all m f prev s =
     (case m prev s of
        r # _ \<Rightarrow>
          if length r < length s then
            (let matched = take (length s - length r) s
             in f matched @ replace_all m f (Some (last matched)) r)
          else f [] @ (case s of [] \<Rightarrow> [] | c # s' \<Rightarrow> c # replace_all m f (Some c) s')
      | [] \<Rightarrow> (case s of [] \<Rightarrow> [] | c # s' \<Rightarrow> c # replace_all m f (Some c) s'))"
  by pat_completeness auto
termination
  by (relation "measure (\<lambda>(m, f, prev, s). length s)") auto

declare replace_all.simps [simp del]

text \<open>\<^verbatim>\<open>s.search(/.../m)\<close>: the index of the leftmost match, \<open>None\<close> for -1.\<close>

fun search :: "(jschar option \<Rightarrow> matcher) \<Rightarrow> jschar option \<Rightarrow> jsstring \<Rightarrow> nat option" where
  "search m prev [] = (if m prev [] = [] then None else Some 0)"
| "search m prev (c # s) =
     (if m prev (c # s) \<noteq> [] then Some 0 else map_option Suc (search m (Some c) s))"

text \<open>\<^verbatim>\<open>s.split(d)\<close> for a one-character separator \<open>d\<close>.\<close>

definition nl :: jschar where "nl = 0x0A"

fun split :: "jschar \<Rightarrow> jsstring \<Rightarrow> jsstring list" where
  "split d [] = [[]]"
| "split d (c # s) =
     (case split d s of
        [] \<Rightarrow> [[c]]
      | l # ls \<Rightarrow> if c = d then [] # l # ls else (c # l) # ls)"

section \<open>Response normalizer\<close>

text \<open>The pattern \<^verbatim>\<open>:?\s*\<close> that ends every prefix pattern.\<close>

definition colon_ws :: matcher where
  "colon_ws = seq (opt (lit (js '':''))) (star isWhiteSpace)"

definition prefixPatterns :: "matcher list" where
  "prefixPatterns =
     [ seq (lit_i (js ''Here is the rewritten prompt'')) colon_ws,
       seq (lit_i (js ''The rewritten prompt is'')) colon_ws,
       seq (lit_i (js ''Rewritten prompt'')) colon_ws,
       seq (lit_i (js ''Here's the rewritten prompt'')) colon_ws,
       seq (lit_i (js ''Here's a rewritten version'')) colon_ws,
       seq (lit_i (js ''Rewritten version'')) colon_ws,
       seqs [lit_i (js ''Here is a''), opt (lit_i (js ''n'')), lit_i (js '' ''),
             alt [lit_i (js ''improved''), lit_i (js ''optimized''), lit_i (js ''rewritten'')],
             colon_ws],
       seqs [lit_i (js ''The ''),
             alt [lit_i (js ''improved''), lit_i (js ''optimized''), lit_i (js ''rewritten'')],
             lit_i (js '' prompt''), colon_ws] ]"

definition suffixPatterns :: "matcher list" where
  "suffixPatterns =
     [ seqs [star isWhiteSpace, lit_i (js ''This rewritten prompt''), lit (js ''...''), eoi],
       seqs [star isWhiteSpace, lit_i (js ''I hope this helps''), opt (lit (js ''!'')),
             opt (lit (js ''.'')), eoi],
       seqs [star isWhiteSpace, lit_i (js ''Let me know if you need any adjustments''),
             opt (lit (js ''.'')), eoi] ]"

definition reportSections :: "jsstring list" where
  "reportSections =
     map js [''Executive Summary'', ''Methodology'', ''Background'', ''Analysis'', ''Findings'',
             ''Recommendations'', ''Conclusion'', ''Appendices'', ''References'',
             ''Data Sources'', ''Research Approach'', ''Target Audience'', ''Deliverables'',
             ''Timeline'', ''Success Metrics'']"

text \<open>The tables of the self-improve endpoint's copy of the normalizer.\<close>

definition prefixPatterns_si :: "matcher list" where
  "prefixPatterns_si =
     [ seq (lit_i (js ''Here is the improved version'')) colon_ws,
       seq (lit_i (js ''The improved version is'')) colon_ws,
       seq (lit_i (js ''Improved version'')) colon_ws,
       seq (lit_i (js ''Here's the improved version'')) colon_ws,
       seq (lit_i (js ''Here's an improved version'')) colon_ws,
       seq (lit_i (js ''Enhanced version'')) colon_ws,
       seqs [lit_i (js ''Here is a''), opt (lit_i (js ''n'')), lit_i (js '' ''),
             alt [lit_i (js ''enhanced''), lit_i (js ''improved''), lit_i (js ''optimized'')],
             colon_ws],
       seqs [lit_i (js ''The ''),
             alt [lit_i (js ''enhanced''), lit_i (js ''improved''), lit_i (js ''optimized'')],
             lit_i (js '' version''), colon_ws] ]"

definition suffixPatterns_si :: "matcher list" where
  "suffixPatterns_si =
     [ seqs [star isWhiteSpace, lit_i (js ''This improved version''), lit (js ''...''), eoi],
       seqs [star isWhiteSpace, lit_i (js ''I hope this enhanced version helps''),
             opt (lit (js ''!'')), opt (lit (js ''.'')), eoi],
       seqs [star isWhiteSpace, lit_i (js ''Let me know if you need further improvements''),
             opt (lit (js ''.'')), eoi] ]"

definition reportSections_si :: "jsstring list" where
  "reportSections_si =
     reportSections @
     map js [''Quality Assurance'', ''Stakeholder Communication'', ''Risk Assessment'',
             ''Implementation'', ''Follow-up'']"

text \<open>
  Stage 3: \<^verbatim>\<open>if ((cleaned.startsWith('"') && cleaned.endsWith('"')) ||
  (cleaned.startsWith("'") && cleaned.endsWith("'"))) cleaned = cleaned.slice(1, -1).trim()\<close>
\<close>

definition dquote :: jschar where "dquote = 0x22"
definition squote :: jschar where "squote = 0x27"

definition slice_1_m1 :: "jsstring \<Rightarrow> jsstring" where
  "slice_1_m1 s = take (length s - 2) (drop 1 s)"

definition stripQuotes :: "jsstring \<Rightarrow> jsstring" where
  "stripQuotes cleaned =
     (if (startsWith cleaned [dquote] \<and> endsWith cleaned [dquote])
         \<or> (startsWith cleaned [squote] \<and> endsWith cleaned [squote])
      then trim (slice_1_m1 cleaned) else cleaned)"

text \<open>The framework components and \<^verbatim>\<open>/^(Role|Context|Task|Format|Rules|Examples):/\<close>.\<close>

definition components :: "jsstring list" where
  "components = map js [''Role'', ''Context'', ''Task'', ''Format'', ''Rules'', ''Examples'']"

definition component_re :: matcher where
  "component_re = seq (alt (map lit components)) (lit (js '':''))"

text \<open>\<^verbatim>\<open>trimmedLine.match(...)\<close>, giving the captured component name.\<close>

definition componentMatch :: "jsstring \<Rightarrow> jsstring option" where
  "componentMatch trimmedLine =
     (case component_re trimmedLine of
        [] \<Rightarrow> None
      | r # _ \<Rightarrow> Some (take (length trimmedLine - length r - 1) trimmedLine))"

text \<open>
  The line loop of the framework branch, on the lines still to read, with
  \<^verbatim>\<open>frameworkLines\<close>, \<^verbatim>\<open>foundComponents\<close> and \<^verbatim>\<open>currentComponent\<close>.
  A \<^verbatim>\<open>break\<close> returns the lines collected so far.
\<close>

fun frameworkLoop ::
  "jsstring list \<Rightarrow> jsstring list \<Rightarrow> jsstring set \<Rightarrow> jsstring \<Rightarrow> jsstring list" where
  "frameworkLoop [] frameworkLines foundComponents currentComponent = frameworkLines"
| "frameworkLoop (line # rest) frameworkLines foundComponents currentComponent =
     (let trimmedLine = trim line in
      case componentMatch trimmedLine of
        Some component \<Rightarrow>
          if component \<in> foundComponents then frameworkLines
          else frameworkLoop rest
                 ((if length frameworkLines > 0 then frameworkLines @ [[]] else frameworkLines)
                    @ [line])
                 (insert component foundComponents) component
      | None \<Rightarrow>
          if currentComponent \<noteq> []
             \<and> (trimmedLine = [] \<or> startsWith trimmedLine (js '' '')
                  \<or> startsWith trimmedLine (js ''-'') \<or> startsWith trimmedLine [0x2022])
          then frameworkLoop rest (frameworkLines @ [line]) foundComponents currentComponent
          else if currentComponent \<noteq> [] \<and> length trimmedLine > 0
                  \<and> component_re trimmedLine = []
          then frameworkLoop rest (frameworkLines @ [line]) foundComponents currentComponent
          else if length trimmedLine > 0 then
            (if js ''Role'' \<in> foundComponents then frameworkLines
             else frameworkLoop rest frameworkLines foundComponents currentComponent)
          else frameworkLoop rest frameworkLines foundComponents currentComponent)"

text \<open>\<^verbatim>\<open>cleaned.replace(/\n\n\n+/g, '\n\n')\<close>\<close>

definition collapseBlankLines :: "jsstring \<Rightarrow> jsstring" where
  "collapseBlankLines =
     replace_all (\<lambda>prev. seq (lit [nl, nl, nl]) (star (\<lambda>c. c = nl))) (\<lambda>m. [nl, nl]) None"

text \<open>\<^verbatim>\<open>cleaned.replace(/^(Role|Context|Task|Format|Rules|Examples):/gm, '\n$1:')\<close>\<close>

definition breakBeforeComponents :: "jsstring \<Rightarrow> jsstring" where
  "breakBeforeComponents =
     replace_all (\<lambda>prev. seq (bol prev) component_re) (\<lambda>m. nl # m) None"

text \<open>
  \<^verbatim>\<open>cleaned.replace(new RegExp(`(\\S)\\s*(${components[i]}:)`, 'g'), '$1\n\n$2')\<close>
\<close>

definition separator_re :: "jsstring \<Rightarrow> matcher" where
  "separator_re component =
     seqs [cls (\<lambda>c. \<not> isWhiteSpace c), star isWhiteSpace, lit (component @ js '':'')]"

definition separateComponent :: "jsstring \<Rightarrow> jsstring \<Rightarrow> jsstring" where
  "separateComponent component =
     replace_all (\<lambda>prev. separator_re component)
       (\<lambda>m. take 1 m @ [nl, nl] @ component @ js '':'') None"

definition frameworkFormat :: "jsstring \<Rightarrow> jsstring" where
  "frameworkFormat cleaned0 =
     (let cleaned1 =
            (case search (\<lambda>prev. seq (bol prev) (lit (js ''Role:''))) None cleaned0 of
               Some firstRoleIndex \<Rightarrow>
                 if firstRoleIndex > 0 then drop firstRoleIndex cleaned0 else cleaned0
             | None \<Rightarrow> cleaned0);
          frameworkLines = frameworkLoop (split nl cleaned1) [] {} [];
          cleaned2 = join [nl] frameworkLines;
          cleaned3 = collapseBlankLines cleaned2;
          cleaned4 = breakBeforeComponents cleaned3;
          cleaned5 = replace_anchored (plus (\<lambda>c. c = nl)) cleaned4
      in foldl (\<lambda>cleaned component. separateComponent component cleaned) cleaned5
           (drop 1 components))"

text \<open>
  The report branch:
  \<^verbatim>\<open>new RegExp(`([.!?])\\s*(${section}[:\\s])`, 'g')\<close> replaced by \<^verbatim>\<open>'$1\n\n$2'\<close>, then
  \<^verbatim>\<open>/([.!?])\s*[-\<bullet>]\s*/g\<close> replaced by \<^verbatim>\<open>'$1\n- '\<close>, then the blank-line collapse.
\<close>

definition isSentenceEnd :: "jschar \<Rightarrow> bool" where
  "isSentenceEnd c = (c \<in> set [0x2E, 0x21, 0x3F])"

definition separateSection :: "jsstring \<Rightarrow> jsstring \<Rightarrow> jsstring" where
  "separateSection section_name =
     replace_all
       (\<lambda>prev. seqs [cls isSentenceEnd, star isWhiteSpace, lit section_name,
                     cls (\<lambda>c. c = 0x3A \<or> isWhiteSpace c)])
       (\<lambda>m. take 1 m @ [nl, nl] @ drop (length m - (length section_name + 1)) m) None"

definition formatBullets :: "jsstring \<Rightarrow> jsstring" where
  "formatBullets =
     replace_all
       (\<lambda>prev. seqs [cls isSentenceEnd, star isWhiteSpace, cls (\<lambda>c. c = 0x2D \<or> c = 0x2022),
                     star isWhiteSpace])
       (\<lambda>m. take 1 m @ js ''\<newline>- '') None"

definition reportFormat :: "jsstring list \<Rightarrow> jsstring \<Rightarrow> jsstring" where
  "reportFormat sections cleaned0 =
     collapseBlankLines
       (formatBullets
          (foldl (\<lambda>cleaned section_name. separateSection section_name cleaned) cleaned0 sections))"

text \<open>\<^verbatim>\<open>cleanResponse(response, mode)\<close>, over the tables of either endpoint.\<close>

definition cleanWith ::
  "matcher list \<Rightarrow> matcher list \<Rightarrow> jsstring list \<Rightarrow> jsstring \<Rightarrow> jsstring \<Rightarrow> jsstring" where
  "cleanWith prefixes suffixes sections response mode =
     (let cleaned0 = trim response;
          cleaned1 = foldl (\<lambda>cleaned pattern. replace_anchored pattern cleaned) cleaned0 prefixes;
          cleaned2 = foldl (\<lambda>cleaned pattern. replace_first pattern cleaned) cleaned1 suffixes;
          cleaned3 = stripQuotes cleaned2;
          cleaned4 = (if mode = js ''framework-optimization'' then frameworkFormat cleaned3
                      else cleaned3);
          cleaned5 = (if mode = js ''report-writing'' then reportFormat sections cleaned4
                      else cleaned4)
      in trim cleaned5)"

definition cleanResponse :: "jsstring \<Rightarrow> jsstring \<Rightarrow> jsstring" where
  "cleanResponse = cleanWith prefixPatterns suffixPatterns reportSections"

definition cleanResponse_si :: "jsstring \<Rightarrow> jsstring \<Rightarrow> jsstring" where
  "cleanResponse_si = cleanWith prefixPatterns_si suffixPatterns_si reportSections_si"

section \<open>Search augmenter\<close>

text \<open>
  \<^verbatim>\<open>extractSearchTerms\<close>.  \<^verbatim>\<open>String.prototype.toLowerCase\<close> is the platform's Unicode
  lower-casing and is taken as a parameter.
\<close>

definition write_about_re :: matcher where
  "write_about_re =
     seqs [lit_i (js ''write''), plus isWhiteSpace,
           opt (seq (lit_i (js ''a'')) (plus isWhiteSpace)),
           alt [lit_i (js ''blog''), lit_i (js ''article'')],
           plus isWhiteSpace, lit_i (js ''about''), plus isWhiteSpace]"

definition extractSearchTerms :: "(jsstring \<Rightarrow> jsstring) \<Rightarrow> jsstring \<Rightarrow> jsstring option" where
  "extractSearchTerms toLowerCase userPrompt =
     (let prompt = toLowerCase userPrompt in
      if str_includes prompt (js ''ai'') \<or> str_includes prompt (js ''artificial intelligence'')
      then Some (js ''latest AI developments 2025 artificial intelligence trends'')
      else if str_includes prompt (js ''blog'') \<or> str_includes prompt (js ''article'')
      then (let topic = trim (replace_first write_about_re prompt)
            in Some (topic @ js '' latest news 2025 current developments''))
      else if str_includes prompt (js ''technology'') \<or> str_includes prompt (js ''tech'')
      then Some (js ''latest technology trends 2025 tech developments'')
      else if str_includes prompt (js ''business'') \<or> str_includes prompt (js ''marketing'')
      then Some (js ''business trends 2025 marketing strategies'')
      else if str_includes prompt (js ''health'') \<or> str_includes prompt (js ''medical'')
      then Some (js ''health trends 2025 medical developments'')
      else (let words = filter (\<lambda>word. length word > 3) (split 0x20 prompt)
            in if length words > 0
               then Some (join (js '' '') (take 3 words) @ js '' 2025 latest developments'')
               else None))"

text \<open>
  One organic result of the search provider, each field possibly absent, and what the
  call \<^verbatim>\<open>axios.get(searchUrl, { params, timeout: 10000 })\<close> does: it throws (transport
  error, timeout, error status, or a body that cannot be read as results), or it gives
  \<^verbatim>\<open>response.data.organic_results\<close>, possibly undefined.
\<close>

record organic_result =
  title :: "jsstring option"
  snippet :: "jsstring option"
  link :: "jsstring option"

datatype search_outcome = SearchThrows | SearchResponse "organic_result list option"

text \<open>
  The surroundings of a request: \<^verbatim>\<open>process.env\<close>, the platform's lower-casing, the two
  remote services, and the prose of \<^verbatim>\<open>SYSTEM_INSTRUCTIONS\<close>, the instruction text
  registered under each mode key (only its length enters the pipeline).
\<close>

record env =
  GROQ_API_KEY :: "jsstring option"
  SERPAPI_API_KEY :: "jsstring option"
  toLowerCase :: "jsstring \<Rightarrow> jsstring"
  serpapi :: "jsstring \<Rightarrow> search_outcome"
  groq :: "chat_request \<Rightarrow> nat \<Rightarrow> completion outcome"
  instructionText :: "jsstring \<Rightarrow> jsstring"

text \<open>\<^verbatim>\<open>!process.env.X\<close>: unset or empty.\<close>

definition unset :: "jsstring option \<Rightarrow> bool" where
  "unset v = (case v of None \<Rightarrow> True | Some x \<Rightarrow> x = [])"

definition orEmpty :: "jsstring option \<Rightarrow> jsstring" where
  "orEmpty v = (case v of None \<Rightarrow> [] | Some x \<Rightarrow> x)"

record web_result =
  data :: jsstring
  sources :: "jsstring list"

definition emptyWeb :: web_result where
  "emptyWeb = \<lparr>data = [], sources = []\<rparr>"

definition performWebSearch :: "env \<Rightarrow> jsstring \<Rightarrow> web_result \<times> event list" where
  "performWebSearch env userPrompt =
     (if unset (SERPAPI_API_KEY env) then (emptyWeb, [])
      else
        (case extractSearchTerms (toLowerCase env) userPrompt of
           None \<Rightarrow> (emptyWeb, [])
         | Some searchTerms \<Rightarrow>
             if searchTerms = [] then (emptyWeb, [])
             else
               (case serpapi env searchTerms of
                  SearchThrows \<Rightarrow> (emptyWeb, [SearchCall searchTerms])
                | SearchResponse organic_results \<Rightarrow>
                    (let results = (case organic_results of None \<Rightarrow> [] | Some rs \<Rightarrow> rs) in
                     if length results = 0 then (emptyWeb, [SearchCall searchTerms])
                     else
                       (let searchData =
                              filter (\<lambda>item. fst item \<noteq> [] \<and> fst (snd item) \<noteq> [])
                                (map (\<lambda>result. (orEmpty (title result), orEmpty (snippet result),
                                                  orEmpty (link result))) results)
                        in (\<lparr>data = join (js ''\<newline>\<newline>'')
                                       (map (\<lambda>item. fst item @ js '': '' @ fst (snd item)) searchData),
                             sources = map (\<lambda>item. snd (snd item)) searchData\<rparr>,
                            [SearchCall searchTerms]))))))"

section \<open>Orchestrator\<close>

text \<open>
  A value of a request body's field; \<open>JUndefined\<close> for an absent key.  Numbers are read
  only for their truthiness.
\<close>

datatype json =
    JUndefined
  | JNull
  | JBool bool
  | JNumber rat
  | JString jsstring
  | JArray "json list"
  | JObject "(jsstring \<times> json) list"

fun truthy :: "json \<Rightarrow> bool" where
  "truthy JUndefined = False"
| "truthy JNull = False"
| "truthy (JBool b) = b"
| "truthy (JNumber n) = (n \<noteq> 0)"
| "truthy (JString s) = (s \<noteq> [])"
| "truthy (JArray xs) = True"
| "truthy (JObject kvs) = True"

text \<open>The keys of \<^verbatim>\<open>SYSTEM_INSTRUCTIONS\<close>, in both endpoints.\<close>

definition VALID_MODES :: "jsstring list" where
  "VALID_MODES =
     map js [''question-research'', ''report-writing'', ''coding-agent'', ''multi-tool-agent'',
             ''document-rewriting'', ''framework-optimization'', ''content-generation'']"

definition displayNames :: "(jsstring \<times> jsstring) list" where
  "displayNames =
     [(js ''question-research'', js ''Question/Research Mode''),
      (js ''report-writing'', js ''Report Writing Mode''),
      (js ''coding-agent'', js ''Coding Agent Mode''),
      (js ''multi-tool-agent'', js ''Multi-Tool Agent Mode''),
      (js ''document-rewriting'', js ''Document Rewriting Mode''),
      (js ''framework-optimization'', js ''Framework Optimization Mode''),
      (js ''content-generation'', js ''Content Generation Mode'')]"

definition displayNames_si :: "(jsstring \<times> jsstring) list" where
  "displayNames_si =
     displayNames @
     [(js ''context-engineering'', js ''Context Engineering Mode''),
      (js ''ultimate-mode'', js ''Ultimate Mode'')]"

text \<open>\<^verbatim>\<open>displayNames[mode] || mode\<close>\<close>

definition displayNameIn :: "(jsstring \<times> jsstring) list \<Rightarrow> jsstring \<Rightarrow> jsstring" where
  "displayNameIn names mode =
     (case map_of names mode of None \<Rightarrow> mode | Some n \<Rightarrow> if n = [] then mode else n)"

definition getModeDisplayName :: "jsstring \<Rightarrow> jsstring" where
  "getModeDisplayName = displayNameIn displayNames"

definition getModeDisplayName_si :: "jsstring \<Rightarrow> jsstring" where
  "getModeDisplayName_si = displayNameIn displayNames_si"

text \<open>
  A request: its body cannot be read (\<^verbatim>\<open>await request.json()\<close> or the destructuring
  throws an error with the given message), or it is an object with these fields.
\<close>

record rewrite_body =
  body_userPrompt :: json
  body_mode :: json
  body_enableWebAccess :: json

datatype rewrite_request = Unreadable jsstring | Body rewrite_body

record rewrite_payload =
  rewrittenPrompt :: jsstring
  rp_mode :: jsstring
  modeName :: jsstring
  isContentGeneration :: bool
  webAccessUsed :: bool
  webSources :: "jsstring list"

record improve_body =
  body_currentOutput :: json
  body_mode_si :: json

datatype improve_request = UnreadableImprove jsstring | ImproveBody improve_body

record improve_payload =
  improvedOutput :: jsstring
  ip_mode :: jsstring
  ip_modeName :: jsstring

text \<open>A response: an error with its status and message, or status 200 with a payload.\<close>

datatype response =
    ErrorResponse nat jsstring
  | RewriteOk rewrite_payload
  | ImproveOk improve_payload

text \<open>
  The \<^verbatim>\<open>catch\<close> block of an endpoint: \<^verbatim>\<open>error.message || GENERIC_ERROR\<close> with status
  \<^verbatim>\<open>error.status || 500\<close>; the errors caught carry no status.
\<close>

definition caught :: "jsstring \<Rightarrow> response" where
  "caught msg = ErrorResponse 500 (if msg = [] then GENERIC_ERROR else msg)"

definition undefinedChoices :: jsstring where
  "undefinedChoices = js ''Cannot read properties of undefined (reading 'choices')''"

definition isDirectContent :: "jsstring \<Rightarrow> bool" where
  "isDirectContent mode = (mode = js ''content-generation'' \<or> mode = js ''document-rewriting'')"

text \<open>The user message of the rewrite endpoint, by mode family and web use.\<close>

definition buildUserMessage :: "jsstring \<Rightarrow> bool \<Rightarrow> jsstring \<Rightarrow> jsstring \<Rightarrow> jsstring" where
  "buildUserMessage mode webUsed webData userPrompt =
     (if mode = js ''content-generation'' then
        (if webUsed
         then js ''Use this current information to enhance your content: '' @ webData
              @ js ''\<newline>\<newline>Generate complete, publication-ready content for: '' @ userPrompt
         else js ''Generate complete, publication-ready content for: '' @ userPrompt)
      else if mode = js ''document-rewriting'' then
        (if webUsed
         then js ''Context for enhancement: '' @ webData
              @ js ''\<newline>\<newline>Transform this content into a professional document:\<newline>\<newline>''
              @ userPrompt
         else js ''Transform this content into a professional document:\<newline>\<newline>'' @ userPrompt)
      else
        (if webUsed
         then js ''Context: '' @ webData @ js ''\<newline>\<newline>REWRITE THIS SPECIFIC PROMPT for ''
              @ getModeDisplayName mode @ js '':\<newline>'' @ [dquote] @ userPrompt
              @ [dquote] @ js ''\<newline>\<newline>Apply your mode's specialization to THEIR specific request. Do not create generic examples.''
         else js ''REWRITE THIS SPECIFIC PROMPT for '' @ getModeDisplayName mode
              @ js '':\<newline>'' @ [dquote] @ userPrompt
              @ [dquote] @ js ''\<newline>\<newline>Apply your mode's specialization to THEIR specific request. Do not create generic examples.''))"

text \<open>
  The rewrite endpoint from the completion call on: the call with the mode's temperature
  and token ceiling, the empty-reply check on the raw text, and the normalizer.
\<close>

definition completeRewrite ::
  "env \<Rightarrow> jsstring \<Rightarrow> jsstring \<Rightarrow> jsstring \<Rightarrow> bool \<Rightarrow> jsstring list \<Rightarrow> response \<times> event list" where
  "completeRewrite env mode systemInstructions userMessage webUsed webSrc =
     (let msgs = [\<lparr>msg_role = js ''system'', msg_content = systemInstructions\<rparr>,
                  \<lparr>msg_role = js ''user'', msg_content = userMessage\<rparr>];
          (result, tr) =
            callGroqWithRetry PAYLOAD_TOO_LARGE (groq env) msgs
              (if isDirectContent mode then 8 / 10 else 4 / 10)
              (if isDirectContent mode then 3000 else 500) 3
      in case result of
           Threw msg \<Rightarrow> (caught msg, tr)
         | ReturnedUndefined \<Rightarrow> (caught undefinedChoices, tr)
         | Returned c \<Rightarrow>
             (case content c of
                None \<Rightarrow> (ErrorResponse 500 GENERIC_ERROR, tr)
              | Some rewritten \<Rightarrow>
                  if rewritten = [] then (ErrorResponse 500 GENERIC_ERROR, tr)
                  else (RewriteOk
                          \<lparr>rewrittenPrompt = cleanResponse rewritten mode,
                           rp_mode = mode,
                           modeName = getModeDisplayName mode,
                           isContentGeneration = isDirectContent mode,
                           webAccessUsed = webUsed,
                           webSources = webSrc\<rparr>, tr)))"

text \<open>
  The search step of the rewrite endpoint: \<^verbatim>\<open>webAccessUsed\<close>, \<^verbatim>\<open>webData\<close> and
  \<^verbatim>\<open>webSources\<close> after it, with the effects.
\<close>

definition augment ::
  "env \<Rightarrow> jsstring \<Rightarrow> jsstring \<Rightarrow> json \<Rightarrow> (bool \<times> jsstring \<times> jsstring list) \<times> event list" where
  "augment env prompt m webFlag =
     (if truthy webFlag \<or> m = js ''content-generation'' \<or> m = js ''document-rewriting''
      then (let (webResult, tr) = performWebSearch env prompt
            in if data webResult \<noteq> [] \<and> length (sources webResult) > 0
               then ((True, data webResult, sources webResult), tr)
               else ((False, [], []), tr))
      else ((False, [], []), []))"

text \<open>The rewrite endpoint once the input is validated: credential, search, budget.\<close>

definition rewriteValid :: "env \<Rightarrow> jsstring \<Rightarrow> jsstring \<Rightarrow> json \<Rightarrow> response \<times> event list" where
  "rewriteValid env prompt m webFlag =
     (if unset (GROQ_API_KEY env) \<or> GROQ_API_KEY env = Some (js ''your-key-here'')
      then (ErrorResponse 500 INVALID_API_KEY, [])
      else
        (let systemInstructions = instructionText env m;
             ((webUsed, webData, webSrc), tr1) = augment env prompt m webFlag;
             userMessage = buildUserMessage m webUsed webData prompt
         in if \<not> validateTokenLimits systemInstructions userMessage webData
            then (ErrorResponse 413 PAYLOAD_TOO_LARGE, tr1)
            else (let (resp, tr2) = completeRewrite env m systemInstructions userMessage webUsed webSrc
                  in (resp, tr1 @ tr2))))"

text \<open>A destructuring default: it replaces an undefined field only.\<close>

definition withDefault :: "json \<Rightarrow> json \<Rightarrow> json" where
  "withDefault d v = (if v = JUndefined then d else v)"

text \<open>\<^verbatim>\<open>POST\<close> of the rewrite endpoint, with the response and the effects in order.\<close>

definition POST :: "env \<Rightarrow> rewrite_request \<Rightarrow> response \<times> event list" where
  "POST env request =
     (case request of
        Unreadable msg \<Rightarrow> (caught msg, [])
      | Body body \<Rightarrow>
          (let m = withDefault (JString (js ''question-research'')) (body_mode body);
               webFlag = withDefault (JBool False) (body_enableWebAccess body)
           in case body_userPrompt body of
                JString prompt \<Rightarrow>
                  if prompt = []
                  then (ErrorResponse 400 (js ''userPrompt is required and must be a string''), [])
                  else
                    (case m of
                       JString key \<Rightarrow>
                         if key \<in> set VALID_MODES then rewriteValid env prompt key webFlag
                         else (ErrorResponse 400
                                 (js ''Invalid mode. Valid modes are: ''
                                    @ join (js '', '') VALID_MODES), [])
                     | _ \<Rightarrow> (ErrorResponse 400
                                (js ''Invalid mode. Valid modes are: ''
                                   @ join (js '', '') VALID_MODES), []))
              | _ \<Rightarrow> (ErrorResponse 400 (js ''userPrompt is required and must be a string''), [])))"

text \<open>The self-improve endpoint.\<close>

definition refinementPrompt :: "jsstring \<Rightarrow> jsstring" where
  "refinementPrompt output =
     js ''Improve this output following your mode instructions. Enhance clarity, completeness, and effectiveness while maintaining the original intent.\<newline>\<newline>Current Output:\<newline>''
     @ output @ js ''\<newline>\<newline>Provide only the improved version.''"

definition improveValid :: "env \<Rightarrow> jsstring \<Rightarrow> jsstring \<Rightarrow> response \<times> event list" where
  "improveValid env output m =
     (if unset (GROQ_API_KEY env) \<or> GROQ_API_KEY env = Some (js ''your-key-here'')
      then (ErrorResponse 500 INVALID_API_KEY, [])
      else
        (let systemInstructions = instructionText env m;
             prompt = refinementPrompt output
         in if \<not> validateTokenLimits_si systemInstructions prompt
            then (ErrorResponse 413 PAYLOAD_TOO_LARGE_si, [])
            else
              (let msgs = [\<lparr>msg_role = js ''system'', msg_content = systemInstructions\<rparr>,
                           \<lparr>msg_role = js ''user'', msg_content = prompt\<rparr>];
                   (result, tr) =
                     callGroqWithRetry PAYLOAD_TOO_LARGE_si (groq env) msgs (7 / 10) 2000 3
               in case result of
                    Threw msg \<Rightarrow> (caught msg, tr)
                  | ReturnedUndefined \<Rightarrow> (caught undefinedChoices, tr)
                  | Returned c \<Rightarrow>
                      (case content c of
                         None \<Rightarrow> (ErrorResponse 500 GENERIC_ERROR, tr)
                       | Some improved \<Rightarrow>
                           if improved = [] then (ErrorResponse 500 GENERIC_ERROR, tr)
                           else (ImproveOk
                                   \<lparr>improvedOutput = cleanResponse_si improved m,
                                    ip_mode = m,
                                    ip_modeName = getModeDisplayName_si m\<rparr>, tr)))))"

definition POST_si :: "env \<Rightarrow> improve_request \<Rightarrow> response \<times> event list" where
  "POST_si env request =
     (case request of
        UnreadableImprove msg \<Rightarrow> (caught msg, [])
      | ImproveBody body \<Rightarrow>
          (case body_currentOutput body of
             JString output \<Rightarrow>
               if output = []
               then (ErrorResponse 400 (js ''currentOutput is required and must be a string''), [])
               else
                 (case body_mode_si body of
                    JString key \<Rightarrow>
                      if key \<noteq> [] \<and> key \<in> set VALID_MODES then improveValid env output key
                      else (ErrorResponse 400
                              (js ''mode is required and must be one of: ''
                                 @ join (js '', '') VALID_MODES), [])
                  | _ \<Rightarrow> (ErrorResponse 400
                             (js ''mode is required and must be one of: ''
                                @ join (js '', '') VALID_MODES), []))
           | _ \<Rightarrow> (ErrorResponse 400 (js ''currentOutput is required and must be a string''), [])))"

section \<open>The specification's wording of the normalizer's properties\<close>

text \<open>
  Stage 3 as the specification words it.  A text is wrapped in a single matching pair of
  quote characters when it opens with a quote character, closes with the same one, and that
  character does not occur in between: the opening quote is then closed by the last
  character and by no earlier one.  Exactly that pair is removed, and any other text is
  left as it is.
\<close>

definition wrappedInQuotes :: "jsstring \<Rightarrow> bool" where
  "wrappedInQuotes s =
     (length s \<ge> 2 \<and> (hd s = dquote \<or> hd s = squote) \<and> last s = hd s
      \<and> hd s \<notin> set (butlast (tl s)))"

definition stripQuotes_spec :: "jsstring \<Rightarrow> jsstring" where
  "stripQuotes_spec s = (if wrappedInQuotes s then butlast (tl s) else s)"

text \<open>
  The label that begins a line, as the line loop reads it (on the trimmed line), and the
  labels that begin the lines of a text, in order.
\<close>

definition lineLabel :: "jsstring \<Rightarrow> jsstring option" where
  "lineLabel line = componentMatch (trim line)"

definition lineLabels :: "jsstring list \<Rightarrow> jsstring list" where
  "lineLabels ls = List.map_filter lineLabel ls"












text \<open>
  The characters of a text that are not whitespace; a text from its first label on; a text
  up to the first label that repeats an earlier one; and the two together, the part of a
  reply between its first label and its first repeated label.
\<close>

definition nonWhite :: "jsstring \<Rightarrow> jsstring" where
  "nonWhite s = filter (\<lambda>c. \<not> isWhiteSpace c) s"






definition consumes :: "matcher \<Rightarrow> (jsstring \<Rightarrow> bool) \<Rightarrow> bool" where
  "consumes m Q \<longleftrightarrow> (\<forall>s r. r \<in> set (m s) \<longrightarrow> (\<exists>a. s = a @ r \<and> Q a))"

definition nlFree :: "jsstring \<Rightarrow> bool" where
  "nlFree a \<longleftrightarrow> nl \<notin> set a"



section \<open>Sample surroundings and inputs\<close>

text \<open>Lower-casing of ASCII text, and a text of \<open>n\<close> letters.\<close>

definition asciiLower :: "jsstring \<Rightarrow> jsstring" where
  "asciiLower s = map (\<lambda>c. if 0x41 \<le> c \<and> c \<le> 0x5A then c + 0x20 else c) s"

definition letters :: "nat \<Rightarrow> jsstring" where
  "letters n = replicate n 0x61"

text \<open>
  A configured deployment whose provider answers every call with the given text and whose
  search call behaves as given.
\<close>

definition sampleEnv :: "jsstring option \<Rightarrow> search_outcome \<Rightarrow> jsstring option \<Rightarrow> env" where
  "sampleEnv searchKey found reply =
     \<lparr>GROQ_API_KEY = Some (js ''gsk-sample''),
      SERPAPI_API_KEY = searchKey,
      toLowerCase = asciiLower,
      serpapi = (\<lambda>q. found),
      groq = (\<lambda>r i. Resolved \<lparr>content = reply\<rparr>),
      instructionText = (\<lambda>k. js ''You are a prompt rewriting specialist.'')\<rparr>"

text \<open>
  The same deployment with a provider that rejects the first call with status 500 and
  answers every later call with the given text.
\<close>

definition flakyEnv :: "jsstring option \<Rightarrow> env" where
  "flakyEnv reply =
     (sampleEnv None SearchThrows reply)
       \<lparr>groq := (\<lambda>r i. if i = 0 then Rejected \<lparr>status = Some 500, code = None, message = None\<rparr>
                       else Resolved \<lparr>content = reply\<rparr>)\<rparr>"


section \<open>Properties of the invoker\<close>

lemma estimateTokenCount_div: "estimateTokenCount t = (length t + 3) div 4"
proof -
  define n where "n = length t"
  define q where "q = (n + 3) div 4"
  have a: "n \<le> 4 * q" and b: "4 * q < n + 4"
    unfolding q_def by arith+
  have "(of_nat n :: rat) \<le> of_nat (4 * q)"
    using a by (simp only: of_nat_le_iff)
  then have a': "(of_nat n :: rat) / 4 \<le> of_int (int q)"
    by simp
  have "(of_nat (4 * q) :: rat) < of_nat (n + 4)"
    using b by (simp only: of_nat_less_iff)
  then have b': "of_int (int q) - 1 < (of_nat n :: rat) / 4"
    by simp
  have "\<lceil>(of_nat n :: rat) / 4\<rceil> = int q"
    using b' a' by (rule ceiling_unique)
  then show ?thesis
    by (simp add: estimateTokenCount_def charToTokenRatio_def n_def q_def)
qed

lemma retry_loop_429:
  assumes "provider req attempt = Rejected e" "status e = Some 429" "attempt < retries"
  shows "retry_loop tooLarge provider req retries attempt =
           (if attempt = retries - 1 then (Threw RATE_LIMIT, [CompletionCall req])
            else (let (r, tr) = retry_loop tooLarge provider req retries (attempt + 1)
                  in (r, CompletionCall req # Sleep (map_option (\<lambda>d. d * 2) (delay_at attempt)) # tr)))"
  using assms by (subst retry_loop.simps) (simp add: Let_def)

text \<open>
  Claim C2.  When every attempt is rejected with status 429, the invoker makes exactly three
  calls, waits 2000 ms after the first and 4000 ms after the second (twice the standard
  1000 and 2000), and then throws the high-demand error.
\<close>

theorem rate_limit_exhaustion:
  assumes "\<And>r i. \<exists>e. provider r i = Rejected e \<and> status e = Some 429"
  shows "callGroqWithRetry tooLarge provider msgs temp maxTokens 3 =
           (Threw RATE_LIMIT,
            [CompletionCall \<lparr>messages = msgs, temperature = temp,
                              max_tokens = min maxTokens maxCompletionTokens\<rparr>,
             Sleep (Some 2000),
             CompletionCall \<lparr>messages = msgs, temperature = temp,
                              max_tokens = min maxTokens maxCompletionTokens\<rparr>,
             Sleep (Some 4000),
             CompletionCall \<lparr>messages = msgs, temperature = temp,
                              max_tokens = min maxTokens maxCompletionTokens\<rparr>])"
proof -
  define req where "req = \<lparr>messages = msgs, temperature = temp,
                              max_tokens = min maxTokens maxCompletionTokens\<rparr>"
  obtain e0 where e0: "provider req 0 = Rejected e0" "status e0 = Some 429"
    using assms by blast
  obtain e1 where e1: "provider req (Suc 0) = Rejected e1" "status e1 = Some 429"
    using assms by blast
  obtain e2 where e2: "provider req (Suc (Suc 0)) = Rejected e2" "status e2 = Some 429"
    using assms by blast
  have l2: "retry_loop tooLarge provider req 3 (Suc (Suc 0)) = (Threw RATE_LIMIT, [CompletionCall req])"
    using retry_loop_429 [where provider = provider and req = req and attempt = "Suc (Suc 0)" and retries = 3
        and tooLarge = tooLarge and e = e2] e2 by simp
  have l1: "retry_loop tooLarge provider req 3 (Suc 0) =
              (Threw RATE_LIMIT, [CompletionCall req, Sleep (Some 4000), CompletionCall req])"
    using retry_loop_429 [where provider = provider and req = req and attempt = "Suc 0" and retries = 3
        and tooLarge = tooLarge and e = e1] e1 l2 by (simp add: delay_at_def delays_def)
  have l0: "retry_loop tooLarge provider req 3 0 =
              (Threw RATE_LIMIT, [CompletionCall req, Sleep (Some 2000), CompletionCall req,
                                  Sleep (Some 4000), CompletionCall req])"
    using retry_loop_429 [where provider = provider and req = req and attempt = 0 and retries = 3
        and tooLarge = tooLarge and e = e0] e0 l1 by (simp add: delay_at_def delays_def)
  show ?thesis
    unfolding callGroqWithRetry_def using l0 by (simp add: req_def)
qed

theorem rate_limit_exhaustion_witness:
  "callGroqWithRetry PAYLOAD_TOO_LARGE
     (\<lambda>r i. Rejected \<lparr>status = Some 429, code = None, message = None\<rparr>) [] (4 / 10) 500 3 =
     (Threw RATE_LIMIT,
      [CompletionCall \<lparr>messages = [], temperature = 4 / 10, max_tokens = 500\<rparr>,
       Sleep (Some 2000),
       CompletionCall \<lparr>messages = [], temperature = 4 / 10, max_tokens = 500\<rparr>,
       Sleep (Some 4000),
       CompletionCall \<lparr>messages = [], temperature = 4 / 10, max_tokens = 500\<rparr>])"
proof -
  have h: "\<And>r i. \<exists>e. (\<lambda>r i. Rejected \<lparr>status = Some 429, code = None, message = None\<rparr>) r i = Rejected e
             \<and> status e = Some 429"
    by simp
  show ?thesis
    using rate_limit_exhaustion [of "\<lambda>r i. Rejected \<lparr>status = Some 429, code = None, message = None\<rparr>"
        PAYLOAD_TOO_LARGE "[]" "4 / 10" 500, OF h]
    by (simp add: maxCompletionTokens_def)
qed

text \<open>
  Claim C6.  At whatever iteration of the loop the provider rejects with status 413, first
  one included, the invoker makes that single call and throws the payload-too-large error:
  no delay and no further call follow.
\<close>

theorem payload_too_large_terminal:
  assumes "attempt < retries" "provider req attempt = Rejected e" "status e = Some 413"
  shows "retry_loop tooLarge provider req retries attempt = (Threw tooLarge, [CompletionCall req])"
  using assms by (subst retry_loop.simps) (simp add: Let_def)

theorem payload_too_large_terminal_witness:
  "retry_loop PAYLOAD_TOO_LARGE
     (\<lambda>r i. Rejected \<lparr>status = Some 413, code = None, message = None\<rparr>)
     \<lparr>messages = [], temperature = 4 / 10, max_tokens = 500\<rparr> 3 0 =
   (Threw PAYLOAD_TOO_LARGE, [CompletionCall \<lparr>messages = [], temperature = 4 / 10, max_tokens = 500\<rparr>])"
  using payload_too_large_terminal [of 0 3 "\<lambda>r i. Rejected \<lparr>status = Some 413, code = None, message = None\<rparr>"
      "\<lparr>messages = [], temperature = 4 / 10, max_tokens = 500\<rparr>"
      "\<lparr>status = Some 413, code = None, message = None\<rparr>" PAYLOAD_TOO_LARGE]
  by simp

section \<open>The token budget gate\<close>

lemma validateTokenLimits_iff:
  "validateTokenLimits s u w \<longleftrightarrow>
     (length s + 3) div 4 + (length u + 3) div 4 + (length w + 3) div 4 \<le> 104857"
proof -
  define t where "t = (length s + 3) div 4 + (length u + 3) div 4 + (length w + 3) div 4"
  have "(of_nat t :: rat) \<le> 131072 * (8 / 10) \<longleftrightarrow> (of_nat (10 * t) :: rat) \<le> of_nat 1048576"
    by (simp add: mult.commute)
  also have "\<dots> \<longleftrightarrow> 10 * t \<le> 1048576"
    by (simp only: of_nat_le_iff)
  also have "\<dots> \<longleftrightarrow> t \<le> 104857"
    by arith
  finally show ?thesis
    by (simp add: validateTokenLimits_def maxInputTokens_def maxContextTokens_def
        estimateTokenCount_div t_def Let_def)
qed

lemma performWebSearch_events:
  "e \<in> set (snd (performWebSearch env p)) \<Longrightarrow> \<exists>q. e = SearchCall q"
  by (auto simp: performWebSearch_def Let_def split: if_splits option.splits search_outcome.splits)

lemma augment_events:
  "augment env p m flag = (r, tr) \<Longrightarrow> e \<in> set tr \<Longrightarrow> \<exists>q. e = SearchCall q"
  using performWebSearch_events [of e env p]
  by (auto simp: augment_def Let_def split: if_splits prod.splits)

lemma POST_valid:
  assumes "body_userPrompt b = JString prompt" "prompt \<noteq> []"
    and "withDefault (JString (js ''question-research'')) (body_mode b) = JString key"
    and "key \<in> set VALID_MODES"
  shows "POST env (Body b) =
           rewriteValid env prompt key (withDefault (JBool False) (body_enableWebAccess b))"
  using assms by (simp add: POST_def Let_def)

lemma ceiling_quarter: "\<lceil>(of_nat n :: rat) / 4\<rceil> = int ((n + 3) div 4)"
proof -
  define q where "q = (n + 3) div 4"
  have a: "n \<le> 4 * q" and b: "4 * q < n + 4"
    unfolding q_def by arith+
  have "(of_nat n :: rat) \<le> of_nat (4 * q)"
    using a by (simp only: of_nat_le_iff)
  then have a': "(of_nat n :: rat) / 4 \<le> of_int (int q)"
    by simp
  have "(of_nat (4 * q) :: rat) < of_nat (n + 4)"
    using b by (simp only: of_nat_less_iff)
  then have b': "of_int (int q) - 1 < (of_nat n :: rat) / 4"
    by simp
  show ?thesis
    unfolding q_def [symmetric] using b' a' by (rule ceiling_unique)
qed

lemma validateTokenLimits_ceiling:
  "validateTokenLimits s u w \<longleftrightarrow>
     (of_int (\<lceil>(of_nat (length s) :: rat) / 4\<rceil> + \<lceil>(of_nat (length u) :: rat) / 4\<rceil>
              + \<lceil>(of_nat (length w) :: rat) / 4\<rceil>) :: rat) \<le> (8 / 10) * 131072"
proof -
  have "(of_int (\<lceil>(of_nat (length s) :: rat) / 4\<rceil> + \<lceil>(of_nat (length u) :: rat) / 4\<rceil>
              + \<lceil>(of_nat (length w) :: rat) / 4\<rceil>) :: rat)
        = of_nat (estimateTokenCount s + estimateTokenCount u + estimateTokenCount w)"
    by (simp add: ceiling_quarter estimateTokenCount_div)
  then show ?thesis
    by (simp add: validateTokenLimits_def maxInputTokens_def maxContextTokens_def Let_def
        mult.commute)
qed

text \<open>
  Claim C1.  The validation is true exactly when the three estimates, each the length
  divided by four and rounded up, sum to at most 0.8 * 131072; and a rewrite request that
  passes input and credential validation and whose system instructions, user message and
  web data have estimates, each the length divided by four and rounded up, that sum to
  more than 0.8 * 131072 is answered with status 413 and the payload-too-large message, the
  only effects so far being those of the search step, none of them a completion call.
\<close>

theorem token_budget_gate:
  "(validateTokenLimits sys usr web \<longleftrightarrow>
      (of_int (\<lceil>(of_nat (length sys) :: rat) / 4\<rceil> + \<lceil>(of_nat (length usr) :: rat) / 4\<rceil>
               + \<lceil>(of_nat (length web) :: rat) / 4\<rceil>) :: rat) \<le> (8 / 10) * 131072)
   \<and> (body_userPrompt b = JString prompt \<and> prompt \<noteq> []
        \<and> withDefault (JString (js ''question-research'')) (body_mode b) = JString key
        \<and> key \<in> set VALID_MODES
        \<and> \<not> unset (GROQ_API_KEY env) \<and> GROQ_API_KEY env \<noteq> Some (js ''your-key-here'')
        \<and> augment env prompt key (withDefault (JBool False) (body_enableWebAccess b))
            = ((webUsed, webData, webSrc), tr)
        \<and> (of_int (\<lceil>(of_nat (length (instructionText env key)) :: rat) / 4\<rceil>
                     + \<lceil>(of_nat (length (buildUserMessage key webUsed webData prompt)) :: rat) / 4\<rceil>
                     + \<lceil>(of_nat (length webData) :: rat) / 4\<rceil>) :: rat) > (8 / 10) * 131072
      \<longrightarrow> \<not> validateTokenLimits (instructionText env key)
              (buildUserMessage key webUsed webData prompt) webData
          \<and> POST env (Body b) = (ErrorResponse 413 PAYLOAD_TOO_LARGE, tr)
          \<and> (\<forall>r. CompletionCall r \<notin> set tr))"
proof (intro conjI impI)
  show "validateTokenLimits sys usr web \<longleftrightarrow>
      (of_int (\<lceil>(of_nat (length sys) :: rat) / 4\<rceil> + \<lceil>(of_nat (length usr) :: rat) / 4\<rceil>
               + \<lceil>(of_nat (length web) :: rat) / 4\<rceil>) :: rat) \<le> (8 / 10) * 131072"
    by (rule validateTokenLimits_ceiling)
next
  assume h: "body_userPrompt b = JString prompt \<and> prompt \<noteq> []
        \<and> withDefault (JString (js ''question-research'')) (body_mode b) = JString key
        \<and> key \<in> set VALID_MODES
        \<and> \<not> unset (GROQ_API_KEY env) \<and> GROQ_API_KEY env \<noteq> Some (js ''your-key-here'')
        \<and> augment env prompt key (withDefault (JBool False) (body_enableWebAccess b))
            = ((webUsed, webData, webSrc), tr)
        \<and> (of_int (\<lceil>(of_nat (length (instructionText env key)) :: rat) / 4\<rceil>
                     + \<lceil>(of_nat (length (buildUserMessage key webUsed webData prompt)) :: rat) / 4\<rceil>
                     + \<lceil>(of_nat (length webData) :: rat) / 4\<rceil>) :: rat) > (8 / 10) * 131072"
  then show no: "\<not> validateTokenLimits (instructionText env key)
                     (buildUserMessage key webUsed webData prompt) webData"
    unfolding validateTokenLimits_ceiling by simp
  have "POST env (Body b) =
          rewriteValid env prompt key (withDefault (JBool False) (body_enableWebAccess b))"
    using h by (intro POST_valid) simp_all
  with h no show "POST env (Body b) = (ErrorResponse 413 PAYLOAD_TOO_LARGE, tr)"
    by (simp add: rewriteValid_def Let_def)
  show "\<forall>r. CompletionCall r \<notin> set tr"
    using h augment_events [of env prompt key _ _ tr] by fastforce
qed

lemma length_letters [simp]: "length (letters n) = n"
  by (simp add: letters_def)

lemma letters_nonempty [simp]: "0 < n \<Longrightarrow> letters n \<noteq> []"
  by (auto simp: letters_def)

theorem token_budget_gate_witness:
  "\<not> validateTokenLimits (js ''You are a prompt rewriting specialist.'')
       (buildUserMessage (js ''question-research'') False [] (letters 420000)) []
   \<and> POST (sampleEnv None SearchThrows (Some (js ''ok'')))
     (Body \<lparr>body_userPrompt = JString (letters 420000), body_mode = JUndefined,
            body_enableWebAccess = JUndefined\<rparr>)
     = (ErrorResponse 413 PAYLOAD_TOO_LARGE, [])
   \<and> (\<forall>r. CompletionCall r \<notin> set [])"
proof -
  let ?env = "sampleEnv None SearchThrows (Some (js ''ok''))"
  let ?b = "\<lparr>body_userPrompt = JString (letters 420000), body_mode = JUndefined,
             body_enableWebAccess = JUndefined\<rparr>"
  have key: "js ''question-research'' \<in> set VALID_MODES"
    by (simp add: VALID_MODES_def)
  have aug: "augment ?env (letters 420000) (js ''question-research'') (JBool False)
               = ((False, [], []), [])"
    by (simp add: augment_def js_def)
  have instr: "instructionText ?env (js ''question-research'')
               = js ''You are a prompt rewriting specialist.''"
    by (simp add: sampleEnv_def)
  have over: "(of_int (\<lceil>(of_nat (length (instructionText ?env (js ''question-research''))) :: rat) / 4\<rceil>
                 + \<lceil>(of_nat (length (buildUserMessage (js ''question-research'') False []
                                         (letters 420000))) :: rat) / 4\<rceil>
                 + \<lceil>(of_nat (length ([] :: jsstring)) :: rat) / 4\<rceil>) :: rat) > (8 / 10) * 131072"
    unfolding ceiling_quarter by (simp add: buildUserMessage_def instr js_def)
  have cred: "\<not> unset (GROQ_API_KEY ?env) \<and> GROQ_API_KEY ?env \<noteq> Some (js ''your-key-here'')"
    by (simp add: sampleEnv_def unset_def js_def)
  show ?thesis
    using token_budget_gate [of "[]" "[]" "[]" ?b "letters 420000" "js ''question-research''" ?env
        False "[]" "[]" "[]"] key aug over cred
    unfolding instr by (simp add: withDefault_def)
qed

section \<open>Input validation\<close>

lemma js_nonempty: "s \<noteq> [] \<Longrightarrow> js s \<noteq> []"
  by (simp add: js_def)

text \<open>
  Claim C7.  A rewrite request whose \<^verbatim>\<open>userPrompt\<close> is not a non-empty string, or whose
  mode (after the default for an absent one) is not a key of the registry, and a
  self-improve request whose \<^verbatim>\<open>currentOutput\<close> is not a non-empty string, or whose mode
  is not a key of the registry, are answered with status 400 and a non-empty message, with
  no effect at all: neither a search nor a completion call.
\<close>

theorem invalid_input_rejected:
  "(((\<forall>s. body_userPrompt b = JString s \<longrightarrow> s = [])
      \<or> (\<forall>k. withDefault (JString (js ''question-research'')) (body_mode b) = JString k
               \<longrightarrow> k \<notin> set VALID_MODES))
     \<longrightarrow> (\<exists>msg. msg \<noteq> [] \<and> POST env (Body b) = (ErrorResponse 400 msg, [])))
   \<and> (((\<forall>s. body_currentOutput c = JString s \<longrightarrow> s = [])
         \<or> (\<forall>k. body_mode_si c = JString k \<longrightarrow> k \<notin> set VALID_MODES))
        \<longrightarrow> (\<exists>msg. msg \<noteq> [] \<and> POST_si env (ImproveBody c) = (ErrorResponse 400 msg, [])))"
proof (intro conjI impI)
  assume "(\<forall>s. body_userPrompt b = JString s \<longrightarrow> s = [])
      \<or> (\<forall>k. withDefault (JString (js ''question-research'')) (body_mode b) = JString k
               \<longrightarrow> k \<notin> set VALID_MODES)"
  then show "\<exists>msg. msg \<noteq> [] \<and> POST env (Body b) = (ErrorResponse 400 msg, [])"
    by (cases "body_userPrompt b";
        cases "withDefault (JString (js ''question-research'')) (body_mode b)")
       (auto simp: POST_def Let_def js_nonempty)
next
  assume "(\<forall>s. body_currentOutput c = JString s \<longrightarrow> s = [])
         \<or> (\<forall>k. body_mode_si c = JString k \<longrightarrow> k \<notin> set VALID_MODES)"
  then show "\<exists>msg. msg \<noteq> [] \<and> POST_si env (ImproveBody c) = (ErrorResponse 400 msg, [])"
    by (cases "body_currentOutput c"; cases "body_mode_si c")
       (auto simp: POST_si_def js_nonempty)
qed

theorem invalid_input_rejected_witness:
  "(\<exists>msg. msg \<noteq> []
      \<and> POST (sampleEnv None SearchThrows None)
           (Body \<lparr>body_userPrompt = JString [], body_mode = JString (js ''coding-agent''),
                  body_enableWebAccess = JBool True\<rparr>) = (ErrorResponse 400 msg, []))
   \<and> (\<exists>msg. msg \<noteq> []
      \<and> POST_si (sampleEnv None SearchThrows None)
           (ImproveBody \<lparr>body_currentOutput = JString (js ''Draft''),
                         body_mode_si = JString (js ''poetry'')\<rparr>) = (ErrorResponse 400 msg, []))"
proof -
  have "js ''poetry'' \<notin> set VALID_MODES"
    by (simp add: VALID_MODES_def js_def)
  then show ?thesis
    using invalid_input_rejected
      [where b = "\<lparr>body_userPrompt = JString [], body_mode = JString (js ''coding-agent''),
                      body_enableWebAccess = JBool True\<rparr>"
         and c = "\<lparr>body_currentOutput = JString (js ''Draft''),
                   body_mode_si = JString (js ''poetry'')\<rparr>"
         and env = "sampleEnv None SearchThrows None"]
    by simp
qed

section \<open>Search failure isolation and the web data in the budget\<close>



lemma callGroq_first_resolved:
  assumes "provider \<lparr>messages = msgs, temperature = temp,
                      max_tokens = min maxTokens maxCompletionTokens\<rparr> 0 = Resolved c"
  shows "callGroqWithRetry tooLarge provider msgs temp maxTokens 3 =
           (Returned c, [CompletionCall \<lparr>messages = msgs, temperature = temp,
                                          max_tokens = min maxTokens maxCompletionTokens\<rparr>])"
  unfolding callGroqWithRetry_def using assms by (subst retry_loop.simps) simp

lemma completeRewrite_resolved:
  assumes "\<And>r. groq env r 0 = Resolved c"
  shows "fst (completeRewrite env key sys msg used src) =
           (case content c of
              None \<Rightarrow> ErrorResponse 500 GENERIC_ERROR
            | Some t \<Rightarrow>
                if t = [] then ErrorResponse 500 GENERIC_ERROR
                else RewriteOk \<lparr>rewrittenPrompt = cleanResponse t key, rp_mode = key,
                                modeName = getModeDisplayName key,
                                isContentGeneration = isDirectContent key,
                                webAccessUsed = used, webSources = src\<rparr>)"
proof -
  have call: "callGroqWithRetry PAYLOAD_TOO_LARGE (groq env) msgs temp maxTokens 3 =
                (Returned c, [CompletionCall \<lparr>messages = msgs, temperature = temp,
                                               max_tokens = min maxTokens maxCompletionTokens\<rparr>])"
    for msgs temp maxTokens
    by (rule callGroq_first_resolved) (rule assms)
  show ?thesis
    unfolding completeRewrite_def by (simp add: call Let_def split: option.splits)
qed


lemma completeRewrite_not_413:
  "fst (completeRewrite env key sys msg used src) \<noteq> ErrorResponse 413 m"
  unfolding completeRewrite_def
  by (auto simp: Let_def caught_def split: prod.splits invoke_result.splits option.splits if_splits)





lemmas sample_eval =
  sampleEnv_def js_def asciiLower_def unset_def VALID_MODES_def withDefault_def
  extractSearchTerms_def startsWith_def split.simps join.simps Let_def


text \<open>
  Claim C10.  When web augmentation is used, the user message embeds the web data, and the
  budget check adds the estimate of the web data to the estimate of that message: the
  request is answered 413 exactly when the estimates of the system instructions, of the
  user message with the web data in it, and of the web data again exceed 0.8 * 131072.
  The sample shows such a rejection where the estimates with the web data counted once
  are within the limit.
\<close>

theorem web_data_counted_twice:
  assumes "body_userPrompt b = JString prompt" "prompt \<noteq> []"
    and "withDefault (JString (js ''question-research'')) (body_mode b) = JString key"
    and "key \<in> set VALID_MODES"
    and "\<not> unset (GROQ_API_KEY env)" "GROQ_API_KEY env \<noteq> Some (js ''your-key-here'')"
    and "augment env prompt key (withDefault (JBool False) (body_enableWebAccess b))
           = ((True, webData, webSrc), tr)"
  shows "(\<exists>before after. buildUserMessage key True webData prompt = before @ webData @ after)
     \<and> (fst (POST env (Body b)) = ErrorResponse 413 PAYLOAD_TOO_LARGE
          \<longleftrightarrow> \<not> (of_nat (estimateTokenCount (instructionText env key)
                          + estimateTokenCount (buildUserMessage key True webData prompt)
                          + estimateTokenCount webData) :: rat) \<le> (8 / 10) * 131072)"
proof -
  have embed: "\<exists>before after. buildUserMessage key True webData prompt = before @ webData @ after"
    unfolding buildUserMessage_def by (simp del: append_assoc) blast
  have post: "POST env (Body b) =
                rewriteValid env prompt key (withDefault (JBool False) (body_enableWebAccess b))"
    using assms by (intro POST_valid) simp_all
  have valid: "validateTokenLimits (instructionText env key)
                 (buildUserMessage key True webData prompt) webData
               \<longleftrightarrow> (of_nat (estimateTokenCount (instructionText env key)
                          + estimateTokenCount (buildUserMessage key True webData prompt)
                          + estimateTokenCount webData) :: rat) \<le> (8 / 10) * 131072"
    by (simp add: validateTokenLimits_def maxInputTokens_def maxContextTokens_def Let_def
        mult.commute)
  have "fst (POST env (Body b)) = ErrorResponse 413 PAYLOAD_TOO_LARGE
        \<longleftrightarrow> \<not> validateTokenLimits (instructionText env key)
                 (buildUserMessage key True webData prompt) webData"
  proof (cases "validateTokenLimits (instructionText env key)
                  (buildUserMessage key True webData prompt) webData")
    case True
    then have "fst (POST env (Body b)) =
                 fst (completeRewrite env key (instructionText env key)
                        (buildUserMessage key True webData prompt) True webSrc)"
      unfolding post rewriteValid_def using assms
      by (simp add: Let_def split: prod.splits)
    then show ?thesis
      using True completeRewrite_not_413 by simp
  next
    case False
    then show ?thesis
      unfolding post rewriteValid_def using assms by (simp add: Let_def)
  qed
  with embed valid show ?thesis
    by simp
qed

theorem web_data_counted_twice_witness:
  "POST (sampleEnv (Some (js ''serp-sample''))
           (SearchResponse (Some [\<lparr>title = Some (js ''News''), snippet = Some (letters 209700),
                                   link = Some (js ''https://example.org'')\<rparr>]))
           (Some (js ''Done.'')))
        (Body \<lparr>body_userPrompt = JString (js ''hello world''), body_mode = JUndefined,
               body_enableWebAccess = JBool True\<rparr>)
     = (ErrorResponse 413 PAYLOAD_TOO_LARGE,
        [SearchCall (js ''hello world 2025 latest developments'')])
   \<and> estimateTokenCount (js ''You are a prompt rewriting specialist.'')
       + estimateTokenCount (buildUserMessage (js ''question-research'') False [] (js ''hello world''))
       + estimateTokenCount (js ''News: '' @ letters 209700) \<le> 104857"
proof -
  let ?found = "SearchResponse (Some [\<lparr>title = Some (js ''News''), snippet = Some (letters 209700),
                                        link = Some (js ''https://example.org'')\<rparr>])"
  let ?env = "sampleEnv (Some (js ''serp-sample'')) ?found (Some (js ''Done.''))"
  let ?b = "\<lparr>body_userPrompt = JString (js ''hello world''), body_mode = JUndefined,
             body_enableWebAccess = JBool True\<rparr>"
  have search: "performWebSearch ?env (js ''hello world'')
                  = (\<lparr>data = js ''News: '' @ letters 209700, sources = [js ''https://example.org'']\<rparr>,
                     [SearchCall (js ''hello world 2025 latest developments'')])"
    by (simp add: performWebSearch_def orEmpty_def sample_eval)
  have aug: "augment ?env (js ''hello world'') (js ''question-research'') (JBool True)
               = ((True, js ''News: '' @ letters 209700, [js ''https://example.org'']),
                  [SearchCall (js ''hello world 2025 latest developments'')])"
    unfolding augment_def search by (simp add: js_def)
  have cred: "\<not> unset (GROQ_API_KEY ?env)" "GROQ_API_KEY ?env \<noteq> Some (js ''your-key-here'')"
    by (simp_all add: sample_eval)
  have key: "js ''question-research'' \<in> set VALID_MODES"
    by (simp add: VALID_MODES_def)
  have over: "\<not> (of_nat (estimateTokenCount (instructionText ?env (js ''question-research''))
                  + estimateTokenCount (buildUserMessage (js ''question-research'') True
                                          (js ''News: '' @ letters 209700) (js ''hello world''))
                  + estimateTokenCount (js ''News: '' @ letters 209700)) :: rat)
                \<le> (8 / 10) * 131072"
    by (simp add: estimateTokenCount_div buildUserMessage_def sampleEnv_def js_def)
  have once: "estimateTokenCount (js ''You are a prompt rewriting specialist.'')
       + estimateTokenCount (buildUserMessage (js ''question-research'') False [] (js ''hello world''))
       + estimateTokenCount (js ''News: '' @ letters 209700) \<le> 104857"
    by (simp add: estimateTokenCount_div buildUserMessage_def getModeDisplayName_def
        displayNameIn_def displayNames_def js_def dquote_def)
  have resp: "fst (POST ?env (Body ?b)) = ErrorResponse 413 PAYLOAD_TOO_LARGE"
    using web_data_counted_twice [where b = ?b and prompt = "js ''hello world''"
        and key = "js ''question-research''" and env = ?env
        and webData = "js ''News: '' @ letters 209700" and webSrc = "[js ''https://example.org'']"
        and tr = "[SearchCall (js ''hello world 2025 latest developments'')]"]
      aug cred key over
    by (simp add: withDefault_def js_nonempty)
  have post: "POST ?env (Body ?b) =
                rewriteValid ?env (js ''hello world'') (js ''question-research'') (JBool True)"
    using key by (simp add: POST_def withDefault_def js_nonempty Let_def)
  have "\<not> validateTokenLimits (instructionText ?env (js ''question-research''))
             (buildUserMessage (js ''question-research'') True
                (js ''News: '' @ letters 209700) (js ''hello world''))
             (js ''News: '' @ letters 209700)"
    using over
    by (simp add: validateTokenLimits_def maxInputTokens_def maxContextTokens_def Let_def
        mult.commute)
  then have "snd (POST ?env (Body ?b))
               = [SearchCall (js ''hello world 2025 latest developments'')]"
    unfolding post rewriteValid_def aug using cred by (simp add: Let_def)
  with resp once show ?thesis
    by (simp add: prod_eq_iff)
qed

section \<open>Quote removal\<close>

lemma startsWith_single: "startsWith s [q] \<longleftrightarrow> s \<noteq> [] \<and> hd s = q"
  by (cases s) (simp_all add: startsWith_def)

lemma endsWith_single: "endsWith s [q] \<longleftrightarrow> s \<noteq> [] \<and> last s = q"
proof (cases s rule: rev_cases)
  case Nil
  then show ?thesis by (simp add: endsWith_def)
next
  case (snoc ys y)
  then show ?thesis by (simp add: endsWith_def)
qed

lemma slice_1_m1_butlast_tl: "slice_1_m1 s = butlast (tl s)"
  by (cases s) (simp_all add: slice_1_m1_def butlast_conv_take)

text \<open>
  Claim C8 as stated fails: a reply wrapped in one pair of double quotes, with blanks just
  inside them, loses the blanks too, not only the outer pair.
\<close>

theorem stripQuotes_counterexample:
  "wrappedInQuotes (dquote # js '' a '' @ [dquote])
   \<and> stripQuotes_spec (dquote # js '' a '' @ [dquote]) = js '' a ''
   \<and> stripQuotes (dquote # js '' a '' @ [dquote]) = js ''a''
   \<and> stripQuotes (dquote # js '' a '' @ [dquote]) \<noteq> stripQuotes_spec (dquote # js '' a '' @ [dquote])"
  by (simp add: stripQuotes_def stripQuotes_spec_def wrappedInQuotes_def startsWith_single
      endsWith_single slice_1_m1_butlast_tl trim_def isWhiteSpace_def js_def dquote_def
      squote_def butlast_append)

text \<open>
  The test of the code is on the first and the last character only, so it also fires on a
  text that opens and closes with the same quote character without being wrapped in one
  pair: two quotations lose the opening quote of the first and the closing quote of the
  second, and a lone quote character becomes the empty text.  The comment above the test
  reads \<^verbatim>\<open>Remove quotes if the entire response is wrapped in them\<close>.
\<close>

lemma stripQuotes_two_quotations:
  "\<not> wrappedInQuotes (dquote # js ''a'' @ dquote # js '' and '' @ dquote # js ''b'' @ [dquote])
   \<and> stripQuotes (dquote # js ''a'' @ dquote # js '' and '' @ dquote # js ''b'' @ [dquote])
       = js ''a'' @ dquote # js '' and '' @ dquote # js ''b''
   \<and> \<not> wrappedInQuotes [dquote]
   \<and> stripQuotes [dquote] = []"
  by (simp add: stripQuotes_def wrappedInQuotes_def startsWith_single endsWith_single
      slice_1_m1_butlast_tl trim_def isWhiteSpace_def js_def dquote_def squote_def
      butlast_append)

text \<open>
  Claim C8, amended.  A text wrapped in a single matching pair of quote characters (it opens
  with a double or single quote, closes with the same character, and that character does not
  occur in between) loses exactly that pair and is then trimmed of surrounding whitespace;
  a text that does not both open and close with the same quote character is left
  unchanged.  Nothing is said here of a text that opens and closes with the same quote
  character without being wrapped in one pair.
\<close>

theorem stripQuotes_amended:
  "(wrappedInQuotes s \<longrightarrow> stripQuotes s = trim (butlast (tl s)))
   \<and> (\<not> (s \<noteq> [] \<and> hd s = last s \<and> (hd s = dquote \<or> hd s = squote))
        \<longrightarrow> \<not> wrappedInQuotes s \<and> stripQuotes s = s)"
  by (auto simp: stripQuotes_def wrappedInQuotes_def startsWith_single endsWith_single
      slice_1_m1_butlast_tl)

theorem stripQuotes_amended_witness:
  "wrappedInQuotes (dquote # js '' a '' @ [dquote])
   \<and> stripQuotes (dquote # js '' a '' @ [dquote]) = js ''a''
   \<and> stripQuotes (dquote # js ''abc'' @ [squote]) = dquote # js ''abc'' @ [squote]"
proof -
  have w: "wrappedInQuotes (dquote # js '' a '' @ [dquote])"
    by (simp add: wrappedInQuotes_def js_def dquote_def squote_def butlast_append)
  have n: "\<not> (dquote # js ''abc'' @ [squote] \<noteq> []
            \<and> hd (dquote # js ''abc'' @ [squote]) = last (dquote # js ''abc'' @ [squote])
            \<and> (hd (dquote # js ''abc'' @ [squote]) = dquote
                \<or> hd (dquote # js ''abc'' @ [squote]) = squote))"
    by (simp add: dquote_def squote_def)
  have t: "trim (butlast (tl (dquote # js '' a '' @ [dquote]))) = js ''a''"
    by (simp add: trim_def isWhiteSpace_def js_def butlast_append)
  show ?thesis
    using stripQuotes_amended [of "dquote # js '' a '' @ [dquote]"]
      stripQuotes_amended [of "dquote # js ''abc'' @ [squote]"] w n t
    by simp
qed

section \<open>Empty replies\<close>

lemmas clean_eval =
  js_def trim_def isWhiteSpace_def startsWith_def endsWith_def lit_def lit_i_def
  canonicalize_def cls_def seq_def seqs_def alt_def opt_def plus_def eoi_def
  isLineTerminator_def bol_def replace_anchored_def nl_def colon_ws_def
  prefixPatterns_def suffixPatterns_def stripQuotes_def dquote_def squote_def slice_1_m1_def
  components_def component_re_def componentMatch_def collapseBlankLines_def
  breakBeforeComponents_def separator_re_def separateComponent_def replace_all.simps

lemma clean_only_prefix:
  "cleanResponse (js ''Here is the rewritten prompt:'') (js ''question-research'') = []"
  unfolding cleanResponse_def cleanWith_def Let_def
  by (simp add: clean_eval)

lemma POST_si_valid:
  assumes "body_currentOutput c = JString output" "output \<noteq> []"
    and "body_mode_si c = JString key" "key \<in> set VALID_MODES"
  shows "POST_si env (ImproveBody c) = improveValid env output key"
proof -
  have "key \<noteq> []"
    using assms(4) by (auto simp: VALID_MODES_def js_def)
  then show ?thesis
    using assms by (simp add: POST_si_def)
qed

lemma improveValid_resolved:
  assumes "\<And>r. groq env r 0 = Resolved c"
    and "\<not> unset (GROQ_API_KEY env)" "GROQ_API_KEY env \<noteq> Some (js ''your-key-here'')"
    and "validateTokenLimits_si (instructionText env key) (refinementPrompt output)"
  shows "fst (improveValid env output key) =
           (case content c of
              None \<Rightarrow> ErrorResponse 500 GENERIC_ERROR
            | Some t \<Rightarrow>
                if t = [] then ErrorResponse 500 GENERIC_ERROR
                else ImproveOk \<lparr>improvedOutput = cleanResponse_si t key, ip_mode = key,
                                ip_modeName = getModeDisplayName_si key\<rparr>)"
proof -
  have call: "callGroqWithRetry PAYLOAD_TOO_LARGE_si (groq env) msgs temp maxTokens 3 =
                (Returned c, [CompletionCall \<lparr>messages = msgs, temperature = temp,
                                               max_tokens = min maxTokens maxCompletionTokens\<rparr>])"
    for msgs temp maxTokens
    by (rule callGroq_first_resolved) (rule assms)
  show ?thesis
    unfolding improveValid_def using assms(2-4)
    by (simp add: call Let_def split: option.splits)
qed

text \<open>
  Claim C4 as stated fails: a reply that consists of a conversational prefix only is not
  empty, passes the empty-reply check, normalizes to the empty string, and is returned as a
  success.
\<close>

theorem empty_after_normalization_counterexample:
  "fst (POST (sampleEnv None SearchThrows (Some (js ''Here is the rewritten prompt:'')))
          (Body \<lparr>body_userPrompt = JString (js ''hello world''), body_mode = JUndefined,
                 body_enableWebAccess = JUndefined\<rparr>))
   = RewriteOk \<lparr>rewrittenPrompt = [], rp_mode = js ''question-research'',
                modeName = js ''Question/Research Mode'', isContentGeneration = False,
                webAccessUsed = False, webSources = []\<rparr>"
proof -
  let ?env = "sampleEnv None SearchThrows (Some (js ''Here is the rewritten prompt:''))"
  let ?b = "\<lparr>body_userPrompt = JString (js ''hello world''), body_mode = JUndefined,
             body_enableWebAccess = JUndefined\<rparr>"
  have post: "POST ?env (Body ?b) =
                rewriteValid ?env (js ''hello world'') (js ''question-research'') (JBool False)"
    by (simp add: POST_def withDefault_def js_nonempty Let_def VALID_MODES_def)
  have aug: "augment ?env (js ''hello world'') (js ''question-research'') (JBool False)
               = ((False, [], []), [])"
    by (simp add: augment_def js_def)
  have budget: "validateTokenLimits (instructionText ?env (js ''question-research''))
                  (buildUserMessage (js ''question-research'') False [] (js ''hello world'')) []"
    by (simp add: validateTokenLimits_iff buildUserMessage_def sampleEnv_def js_def
        getModeDisplayName_def displayNameIn_def displayNames_def)
  have cred: "\<not> unset (GROQ_API_KEY ?env)" "GROQ_API_KEY ?env \<noteq> Some (js ''your-key-here'')"
    by (simp_all add: sampleEnv_def unset_def js_def)
  have reply: "\<And>r. groq ?env r 0 = Resolved \<lparr>content = Some (js ''Here is the rewritten prompt:'')\<rparr>"
    by (simp add: sampleEnv_def)
  have name: "getModeDisplayName (js ''question-research'') = js ''Question/Research Mode''"
    by (simp add: getModeDisplayName_def displayNameIn_def displayNames_def js_def)
  have direct: "\<not> isDirectContent (js ''question-research'')"
    by (simp add: isDirectContent_def js_def)
  have "fst (POST ?env (Body ?b)) =
          fst (completeRewrite ?env (js ''question-research'')
                 (instructionText ?env (js ''question-research''))
                 (buildUserMessage (js ''question-research'') False [] (js ''hello world''))
                 False [])"
    unfolding post rewriteValid_def aug using budget cred
    by (simp add: Let_def split: prod.splits)
  then show ?thesis
    by (simp add: completeRewrite_resolved [OF reply] clean_only_prefix name direct js_nonempty)
qed

lemma completeRewrite_returned:
  assumes "fst (callGroqWithRetry PAYLOAD_TOO_LARGE (groq env)
                  [\<lparr>msg_role = js ''system'', msg_content = systemInstructions\<rparr>,
                   \<lparr>msg_role = js ''user'', msg_content = userMessage\<rparr>]
                  (if isDirectContent key then 8 / 10 else 4 / 10)
                  (if isDirectContent key then 3000 else 500) 3) = Returned c"
  shows "fst (completeRewrite env key systemInstructions userMessage webUsed webSrc) =
           (case content c of
              None \<Rightarrow> ErrorResponse 500 GENERIC_ERROR
            | Some t \<Rightarrow>
                if t = [] then ErrorResponse 500 GENERIC_ERROR
                else RewriteOk \<lparr>rewrittenPrompt = cleanResponse t key, rp_mode = key,
                                modeName = getModeDisplayName key,
                                isContentGeneration = isDirectContent key,
                                webAccessUsed = webUsed, webSources = webSrc\<rparr>)"
proof -
  obtain tr where "callGroqWithRetry PAYLOAD_TOO_LARGE (groq env)
                  [\<lparr>msg_role = js ''system'', msg_content = systemInstructions\<rparr>,
                   \<lparr>msg_role = js ''user'', msg_content = userMessage\<rparr>]
                  (if isDirectContent key then 8 / 10 else 4 / 10)
                  (if isDirectContent key then 3000 else 500) 3 = (Returned c, tr)"
    using assms by (metis prod.collapse)
  then show ?thesis
    unfolding completeRewrite_def by (simp add: Let_def split: option.splits)
qed

lemma improveValid_returned:
  assumes "fst (callGroqWithRetry PAYLOAD_TOO_LARGE_si (groq env)
                  [\<lparr>msg_role = js ''system'', msg_content = instructionText env key\<rparr>,
                   \<lparr>msg_role = js ''user'', msg_content = refinementPrompt current\<rparr>]
                  (7 / 10) 2000 3) = Returned c"
    and "\<not> unset (GROQ_API_KEY env)" "GROQ_API_KEY env \<noteq> Some (js ''your-key-here'')"
    and "validateTokenLimits_si (instructionText env key) (refinementPrompt current)"
  shows "fst (improveValid env current key) =
           (case content c of
              None \<Rightarrow> ErrorResponse 500 GENERIC_ERROR
            | Some t \<Rightarrow>
                if t = [] then ErrorResponse 500 GENERIC_ERROR
                else ImproveOk \<lparr>improvedOutput = cleanResponse_si t key, ip_mode = key,
                                ip_modeName = getModeDisplayName_si key\<rparr>)"
proof -
  obtain tr where "callGroqWithRetry PAYLOAD_TOO_LARGE_si (groq env)
                  [\<lparr>msg_role = js ''system'', msg_content = instructionText env key\<rparr>,
                   \<lparr>msg_role = js ''user'', msg_content = refinementPrompt current\<rparr>]
                  (7 / 10) 2000 3 = (Returned c, tr)"
    using assms(1) by (metis prod.collapse)
  then show ?thesis
    unfolding improveValid_def using assms(2-4) by (simp add: Let_def split: option.splits)
qed

lemma flaky_call:
  "callGroqWithRetry tooLarge (groq (flakyEnv reply)) msgs temp maxTokens 3 =
     (Returned \<lparr>content = reply\<rparr>,
      [CompletionCall \<lparr>messages = msgs, temperature = temp,
                       max_tokens = min maxTokens maxCompletionTokens\<rparr>,
       Sleep (Some 1000),
       CompletionCall \<lparr>messages = msgs, temperature = temp,
                       max_tokens = min maxTokens maxCompletionTokens\<rparr>])"
proof -
  let ?req = "\<lparr>messages = msgs, temperature = temp,
              max_tokens = min maxTokens maxCompletionTokens\<rparr>"
  let ?g = "\<lambda>(r :: chat_request) (i :: nat).
              if i = 0 then Rejected \<lparr>status = Some 500, code = None, message = None\<rparr>
              else Resolved \<lparr>content = reply\<rparr>"
  have g: "groq (flakyEnv reply) = ?g"
    by (simp add: flakyEnv_def)
  have second: "retry_loop tooLarge ?g ?req 3 (Suc 0)
                  = (Returned \<lparr>content = reply\<rparr>, [CompletionCall ?req])"
    by (subst retry_loop.simps) simp
  have "retry_loop tooLarge ?g ?req 3 0
          = (Returned \<lparr>content = reply\<rparr>,
             [CompletionCall ?req, Sleep (Some 1000), CompletionCall ?req])"
    by (subst retry_loop.simps)
      (simp add: second isTimeout_def isServerError_def delay_at_def delays_def Let_def)
  then show ?thesis
    unfolding callGroqWithRetry_def g .
qed

text \<open>
  Claim C4, amended.  In both endpoints the emptiness check is made on the raw reply, before
  normalization: whenever the invoker returns a completion, at the first attempt or after
  retries, a missing or empty raw text is surfaced as the generic error with status 500, and
  any non-empty raw text is normalized and returned as a success, whatever the normalizer
  leaves of it.
\<close>

theorem empty_reply_checked_before_normalization:
  "(body_userPrompt b = JString prompt \<and> prompt \<noteq> []
      \<and> withDefault (JString (js ''question-research'')) (body_mode b) = JString key
      \<and> key \<in> set VALID_MODES
      \<and> \<not> unset (GROQ_API_KEY env) \<and> GROQ_API_KEY env \<noteq> Some (js ''your-key-here'')
      \<and> augment env prompt key (withDefault (JBool False) (body_enableWebAccess b))
          = ((webUsed, webData, webSrc), tr)
      \<and> validateTokenLimits (instructionText env key)
           (buildUserMessage key webUsed webData prompt) webData
      \<and> fst (callGroqWithRetry PAYLOAD_TOO_LARGE (groq env)
                [\<lparr>msg_role = js ''system'', msg_content = instructionText env key\<rparr>,
                 \<lparr>msg_role = js ''user'',
                  msg_content = buildUserMessage key webUsed webData prompt\<rparr>]
                (if isDirectContent key then 8 / 10 else 4 / 10)
                (if isDirectContent key then 3000 else 500) 3) = Returned c
    \<longrightarrow> fst (POST env (Body b)) =
          (case content c of
             None \<Rightarrow> ErrorResponse 500 GENERIC_ERROR
           | Some t \<Rightarrow>
               if t = [] then ErrorResponse 500 GENERIC_ERROR
               else RewriteOk \<lparr>rewrittenPrompt = cleanResponse t key, rp_mode = key,
                               modeName = getModeDisplayName key,
                               isContentGeneration = isDirectContent key,
                               webAccessUsed = webUsed, webSources = webSrc\<rparr>))
   \<and> (body_currentOutput d = JString current \<and> current \<noteq> []
      \<and> body_mode_si d = JString key' \<and> key' \<in> set VALID_MODES
      \<and> \<not> unset (GROQ_API_KEY env') \<and> GROQ_API_KEY env' \<noteq> Some (js ''your-key-here'')
      \<and> validateTokenLimits_si (instructionText env' key') (refinementPrompt current)
      \<and> fst (callGroqWithRetry PAYLOAD_TOO_LARGE_si (groq env')
                [\<lparr>msg_role = js ''system'', msg_content = instructionText env' key'\<rparr>,
                 \<lparr>msg_role = js ''user'', msg_content = refinementPrompt current\<rparr>]
                (7 / 10) 2000 3) = Returned c'
    \<longrightarrow> fst (POST_si env' (ImproveBody d)) =
          (case content c' of
             None \<Rightarrow> ErrorResponse 500 GENERIC_ERROR
           | Some t \<Rightarrow>
               if t = [] then ErrorResponse 500 GENERIC_ERROR
               else ImproveOk \<lparr>improvedOutput = cleanResponse_si t key', ip_mode = key',
                               ip_modeName = getModeDisplayName_si key'\<rparr>))"
proof (intro conjI impI)
  assume h: "body_userPrompt b = JString prompt \<and> prompt \<noteq> []
      \<and> withDefault (JString (js ''question-research'')) (body_mode b) = JString key
      \<and> key \<in> set VALID_MODES
      \<and> \<not> unset (GROQ_API_KEY env) \<and> GROQ_API_KEY env \<noteq> Some (js ''your-key-here'')
      \<and> augment env prompt key (withDefault (JBool False) (body_enableWebAccess b))
          = ((webUsed, webData, webSrc), tr)
      \<and> validateTokenLimits (instructionText env key)
           (buildUserMessage key webUsed webData prompt) webData
      \<and> fst (callGroqWithRetry PAYLOAD_TOO_LARGE (groq env)
                [\<lparr>msg_role = js ''system'', msg_content = instructionText env key\<rparr>,
                 \<lparr>msg_role = js ''user'',
                  msg_content = buildUserMessage key webUsed webData prompt\<rparr>]
                (if isDirectContent key then 8 / 10 else 4 / 10)
                (if isDirectContent key then 3000 else 500) 3) = Returned c"
  have post: "POST env (Body b) =
                rewriteValid env prompt key (withDefault (JBool False) (body_enableWebAccess b))"
    using h by (intro POST_valid) simp_all
  have "fst (POST env (Body b)) =
          fst (completeRewrite env key (instructionText env key)
                 (buildUserMessage key webUsed webData prompt) webUsed webSrc)"
    unfolding post rewriteValid_def using h by (simp add: Let_def split: prod.splits)
  moreover have "fst (completeRewrite env key (instructionText env key)
                 (buildUserMessage key webUsed webData prompt) webUsed webSrc) =
          (case content c of
             None \<Rightarrow> ErrorResponse 500 GENERIC_ERROR
           | Some t \<Rightarrow>
               if t = [] then ErrorResponse 500 GENERIC_ERROR
               else RewriteOk \<lparr>rewrittenPrompt = cleanResponse t key, rp_mode = key,
                               modeName = getModeDisplayName key,
                               isContentGeneration = isDirectContent key,
                               webAccessUsed = webUsed, webSources = webSrc\<rparr>)"
    by (rule completeRewrite_returned) (use h in blast)
  ultimately show "fst (POST env (Body b)) =
          (case content c of
             None \<Rightarrow> ErrorResponse 500 GENERIC_ERROR
           | Some t \<Rightarrow>
               if t = [] then ErrorResponse 500 GENERIC_ERROR
               else RewriteOk \<lparr>rewrittenPrompt = cleanResponse t key, rp_mode = key,
                               modeName = getModeDisplayName key,
                               isContentGeneration = isDirectContent key,
                               webAccessUsed = webUsed, webSources = webSrc\<rparr>)"
    by (rule trans)
next
  assume h: "body_currentOutput d = JString current \<and> current \<noteq> []
      \<and> body_mode_si d = JString key' \<and> key' \<in> set VALID_MODES
      \<and> \<not> unset (GROQ_API_KEY env') \<and> GROQ_API_KEY env' \<noteq> Some (js ''your-key-here'')
      \<and> validateTokenLimits_si (instructionText env' key') (refinementPrompt current)
      \<and> fst (callGroqWithRetry PAYLOAD_TOO_LARGE_si (groq env')
                [\<lparr>msg_role = js ''system'', msg_content = instructionText env' key'\<rparr>,
                 \<lparr>msg_role = js ''user'', msg_content = refinementPrompt current\<rparr>]
                (7 / 10) 2000 3) = Returned c'"
  have "POST_si env' (ImproveBody d) = improveValid env' current key'"
    using h by (intro POST_si_valid) simp_all
  moreover have "fst (improveValid env' current key') =
          (case content c' of
             None \<Rightarrow> ErrorResponse 500 GENERIC_ERROR
           | Some t \<Rightarrow>
               if t = [] then ErrorResponse 500 GENERIC_ERROR
               else ImproveOk \<lparr>improvedOutput = cleanResponse_si t key', ip_mode = key',
                               ip_modeName = getModeDisplayName_si key'\<rparr>)"
    by (rule improveValid_returned) (use h in blast)+
  ultimately show "fst (POST_si env' (ImproveBody d)) =
          (case content c' of
             None \<Rightarrow> ErrorResponse 500 GENERIC_ERROR
           | Some t \<Rightarrow>
               if t = [] then ErrorResponse 500 GENERIC_ERROR
               else ImproveOk \<lparr>improvedOutput = cleanResponse_si t key', ip_mode = key',
                               ip_modeName = getModeDisplayName_si key'\<rparr>)"
    by simp
qed

theorem empty_reply_checked_before_normalization_witness:
  "fst (POST (flakyEnv (Some (js ''Done.'')))
          (Body \<lparr>body_userPrompt = JString (js ''hello world''), body_mode = JUndefined,
                 body_enableWebAccess = JUndefined\<rparr>))
     = RewriteOk \<lparr>rewrittenPrompt = cleanResponse (js ''Done.'') (js ''question-research''),
                  rp_mode = js ''question-research'',
                  modeName = getModeDisplayName (js ''question-research''),
                  isContentGeneration = isDirectContent (js ''question-research''),
                  webAccessUsed = False, webSources = []\<rparr>
   \<and> fst (POST_si (flakyEnv (Some []))
          (ImproveBody \<lparr>body_currentOutput = JString (js ''Draft''),
                        body_mode_si = JString (js ''coding-agent'')\<rparr>))
     = ErrorResponse 500 GENERIC_ERROR"
proof -
  let ?env = "flakyEnv (Some (js ''Done.''))"
  let ?env' = "flakyEnv (Some [])"
  let ?b = "\<lparr>body_userPrompt = JString (js ''hello world''), body_mode = JUndefined,
             body_enableWebAccess = JUndefined\<rparr>"
  let ?d = "\<lparr>body_currentOutput = JString (js ''Draft''),
             body_mode_si = JString (js ''coding-agent'')\<rparr>"
  have aug: "augment ?env (js ''hello world'') (js ''question-research'') (JBool False)
               = ((False, [], []), [])"
    by (simp add: augment_def js_def)
  have budget: "validateTokenLimits (instructionText ?env (js ''question-research''))
                  (buildUserMessage (js ''question-research'') False [] (js ''hello world'')) []"
    by (simp add: validateTokenLimits_iff buildUserMessage_def flakyEnv_def sampleEnv_def js_def
        getModeDisplayName_def displayNameIn_def displayNames_def)
  have budget': "validateTokenLimits_si (instructionText ?env' (js ''coding-agent''))
                   (refinementPrompt (js ''Draft''))"
    by (simp add: validateTokenLimits_si_def maxInputTokens_def maxContextTokens_def
        estimateTokenCount_div refinementPrompt_def flakyEnv_def sampleEnv_def js_def Let_def)
  have cred: "\<not> unset (GROQ_API_KEY ?env)" "GROQ_API_KEY ?env \<noteq> Some (js ''your-key-here'')"
    "\<not> unset (GROQ_API_KEY ?env')" "GROQ_API_KEY ?env' \<noteq> Some (js ''your-key-here'')"
    by (simp_all add: flakyEnv_def sampleEnv_def unset_def js_def)
  have keys: "js ''question-research'' \<in> set VALID_MODES" "js ''coding-agent'' \<in> set VALID_MODES"
    by (simp_all add: VALID_MODES_def)
  show ?thesis
    using empty_reply_checked_before_normalization
      [where b = ?b and prompt = "js ''hello world''" and key = "js ''question-research''"
         and env = ?env and webUsed = False and webData = "[]" and webSrc = "[]" and tr = "[]"
         and c = "\<lparr>content = Some (js ''Done.'')\<rparr>"
         and d = ?d and current = "js ''Draft''" and key' = "js ''coding-agent''"
         and env' = ?env' and c' = "\<lparr>content = Some []\<rparr>"]
      aug budget budget' cred keys
    by (simp add: withDefault_def js_nonempty flaky_call)
qed

section \<open>The line loop of the framework branch\<close>

lemma lineLabels_Nil [simp]: "lineLabels [] = []"
  by (simp add: lineLabels_def map_filter_simps)

lemma lineLabels_Cons:
  "lineLabels (l # ls) = (case lineLabel l of None \<Rightarrow> lineLabels ls | Some c \<Rightarrow> c # lineLabels ls)"
  by (cases "lineLabel l") (simp_all add: lineLabels_def map_filter_simps)

lemma lineLabels_append [simp]: "lineLabels (xs @ ys) = lineLabels xs @ lineLabels ys"
  by (induction xs) (simp_all add: lineLabels_Cons split: option.splits)

lemma lineLabel_blank [simp]: "lineLabel [] = None"
  by (simp add: lineLabel_def trim_def componentMatch_def component_re_def components_def
      seq_def alt_def lit_def startsWith_def js_def)

lemma componentMatch_nonempty: "componentMatch t = Some c \<Longrightarrow> c \<noteq> []"
  by (auto simp: componentMatch_def component_re_def components_def seq_def alt_def lit_def
      startsWith_def js_def split: list.splits if_splits)

lemma frameworkLoop_label_step:
  assumes "lineLabel l = Some c" "c \<notin> found"
  shows "frameworkLoop (l # rest) fl found cur =
           frameworkLoop rest ((if fl \<noteq> [] then fl @ [[]] else fl) @ [l]) (insert c found) c"
  using assms by (simp add: lineLabel_def)

lemma frameworkLoop_stops:
  assumes "lineLabel d = Some c" "c \<in> found \<union> set (lineLabels pre)"
  shows "frameworkLoop (pre @ d # post) fl found cur = frameworkLoop pre fl found cur"
  using assms(2)
proof (induction pre arbitrary: fl found cur)
  case Nil
  then show ?case
    using assms(1) by (simp add: lineLabel_def)
next
  case (Cons l pre)
  show ?case
  proof (cases "lineLabel l")
    case None
    then have "c \<in> found \<union> set (lineLabels pre)"
      using Cons.prems by (simp add: lineLabels_Cons)
    then show ?thesis
      using None Cons.IH by (simp add: lineLabel_def Let_def)
  next
    case (Some c')
    show ?thesis
    proof (cases "c' \<in> found")
      case True
      then show ?thesis
        using Some by (simp add: lineLabel_def)
    next
      case False
      have "c \<in> insert c' found \<union> set (lineLabels pre)"
        using Cons.prems Some by (auto simp: lineLabels_Cons)
      then show ?thesis
        using Some False Cons.IH by (simp add: lineLabel_def)
    qed
  qed
qed

lemma frameworkLoop_keeps_labels:
  assumes "distinct (lineLabels ls)" "set (lineLabels ls) \<inter> found = {}"
    and "js ''Role'' \<in> found \<longrightarrow> cur \<noteq> []"
  shows "lineLabels (frameworkLoop ls fl found cur) = lineLabels fl @ lineLabels ls"
  using assms
proof (induction ls arbitrary: fl found cur)
  case Nil
  then show ?case by simp
next
  case (Cons l ls)
  show ?case
  proof (cases "lineLabel l")
    case None
    then have d: "distinct (lineLabels ls)" "set (lineLabels ls) \<inter> found = {}"
      using Cons.prems by (simp_all add: lineLabels_Cons)
    have step: "lineLabels (frameworkLoop ls fl' found cur) = lineLabels fl' @ lineLabels ls" for fl'
      using Cons.IH [OF d Cons.prems(3)] .
    have nomatch: "component_re (trim l) = []"
      using None by (simp add: lineLabel_def componentMatch_def split: list.splits)
    show ?thesis
      using None Cons.prems(3) step nomatch
      by (auto simp: lineLabel_def Let_def lineLabels_Cons)
  next
    case (Some c')
    then have fresh: "c' \<notin> found" and d: "distinct (lineLabels ls)"
      and disj: "set (lineLabels ls) \<inter> insert c' found = {}"
      using Cons.prems by (auto simp: lineLabels_Cons)
    have "c' \<noteq> []"
      using Some componentMatch_nonempty by (simp add: lineLabel_def)
    then have step: "lineLabels (frameworkLoop ls fl' (insert c' found) c')
                       = lineLabels fl' @ lineLabels ls" for fl'
      using Cons.IH [OF d disj] by simp
    have "frameworkLoop (l # ls) fl found cur =
            frameworkLoop ls ((if fl \<noteq> [] then fl @ [[]] else fl) @ [l]) (insert c' found) c'"
      by (rule frameworkLoop_label_step [OF Some fresh])
    then show ?thesis
      using Some step by (simp add: lineLabels_Cons del: frameworkLoop.simps)
  qed
qed

lemmas label_eval =
  lineLabels_Cons lineLabel_def trim_def isWhiteSpace_def componentMatch_def component_re_def
  components_def seq_def alt_def lit_def startsWith_def js_def nl_def


section \<open>Idempotence of the normalizer\<close>

text \<open>
  The normalizer is followed stage by stage on a text built from normalized sections.  The
  stages before the framework branch find nothing to remove.  In the framework branch the
  line scanner keeps every line and puts one more blank line before each later section;
  the blank-line collapse takes it away again; the line break before components puts one
  line break before every section, which the removal of leading line breaks takes away
  before the first section and the separation of components before the later ones.
\<close>

subsection \<open>Strings, lines and occurrences\<close>











subsection \<open>Global replacement where nothing matches\<close>






subsection \<open>The component pattern on labels\<close>

lemma components_cases:
  "c \<in> set components \<Longrightarrow>
     c = js ''Role'' \<or> c = js ''Context'' \<or> c = js ''Task'' \<or> c = js ''Format''
     \<or> c = js ''Rules'' \<or> c = js ''Examples''"
  by (simp add: components_def)

lemma startsWith_append_iff:
  "startsWith t (a @ b) \<longleftrightarrow> startsWith t a \<and> startsWith (drop (length a) t) b"
proof -
  have split: "take (length (a @ b)) t = take (length a) t @ take (length b) (drop (length a) t)"
    by (simp only: length_append take_add)
  show ?thesis
  proof
    assume "startsWith t (a @ b)"
    then have h: "take (length a) t @ take (length b) (drop (length a) t) = a @ b"
      unfolding startsWith_def split .
    have "length (take (length a) t) \<le> length a" "length (take (length b) (drop (length a) t)) \<le> length b"
      by simp_all
    moreover have "length (take (length a) t) + length (take (length b) (drop (length a) t))
                     = length a + length b"
      using arg_cong [OF h, of length] by (simp only: length_append)
    ultimately have "length (take (length a) t) = length a"
      by linarith
    with h have "take (length a) t = a \<and> take (length b) (drop (length a) t) = b"
      using append_eq_append_conv [of "take (length a) t" a "take (length b) (drop (length a) t)" b]
      by blast
    then show "startsWith t a \<and> startsWith (drop (length a) t) b"
      unfolding startsWith_def .
  next
    assume "startsWith t a \<and> startsWith (drop (length a) t) b"
    then have "take (length a) t = a" "take (length b) (drop (length a) t) = b"
      unfolding startsWith_def by blast+
    then show "startsWith t (a @ b)"
      unfolding startsWith_def split by (simp only:)
  qed
qed


lemma alt_seq_nonempty:
  "concat (map (lit c) (concat (map (\<lambda>m. m t) (map lit ls)))) \<noteq> []
     \<longleftrightarrow> (\<exists>l \<in> set ls. startsWith t (l @ c))"
proof (induction ls)
  case Nil
  then show ?case by simp
next
  case (Cons l ls)
  have "concat (map (lit c) (lit l t)) \<noteq> [] \<longleftrightarrow> startsWith t (l @ c)"
    by (cases "startsWith t l") (simp_all add: lit_def startsWith_append_iff)
  then show ?case
    using Cons by simp
qed

lemma component_re_startsWith:
  "component_re t \<noteq> [] \<longleftrightarrow> (\<exists>l \<in> set components. startsWith t (l @ js '':''))"
  unfolding component_re_def seq_def alt_def by (rule alt_seq_nonempty)















subsection \<open>The lines of a section\<close>

lemma label_chars:
  assumes "c \<in> set components"
  shows "c \<noteq> []" "\<not> isWhiteSpace (hd c)" "hd c \<noteq> dquote" "hd c \<noteq> squote"
    "nl \<notin> set (c @ js '':'')"
  using components_cases [OF assms]
  by (auto simp: js_def isWhiteSpace_def dquote_def squote_def nl_def)


lemma js_colon: "js '':'' = [58]"
  by (simp add: js_def)









subsection \<open>The line scanner on sections\<close>








subsection \<open>The blank-line collapse on sections\<close>






subsection \<open>The line break before components\<close>


lemma component_re_Nil: "component_re [] = []"
  using component_re_startsWith [of "[]"] label_chars(1)
  by (auto simp: startsWith_def js_colon)










subsection \<open>The separation of components\<close>

text \<open>
  \<^verbatim>\<open>(\S)\s*(Label:)\<close> matches only at the last character of the section before the one
  that opens with the label, together with the line breaks between them, and puts two
  line breaks there.  The separators are followed per label through the five calls.
\<close>

lemma nl_ws: "isWhiteSpace nl"
  by (simp add: isWhiteSpace_def nl_def)
























subsection \<open>The stages before the framework branch\<close>















subsection \<open>The normalizer on a normalized text\<close>
















section \<open>Duplicated labels in the framework mode\<close>

text \<open>
  The framework branch is followed through the labels of the text: which stage keeps them,
  and what the line loop makes of them when every label begins a line.
\<close>

lemma componentMatch_Nil [simp]: "componentMatch [] = None"
  by (simp add: componentMatch_def component_re_Nil)













































lemma consumesI: "(\<And>s r. r \<in> set (m s) \<Longrightarrow> \<exists>a. s = a @ r \<and> Q a) \<Longrightarrow> consumes m Q"
  by (simp add: consumes_def)

lemma consumesD: "consumes m Q \<Longrightarrow> r \<in> set (m s) \<Longrightarrow> \<exists>a. s = a @ r \<and> Q a"
  by (simp add: consumes_def)








lemma consumes_seq:
  assumes "consumes m1 Q1" "consumes m2 Q2" "\<And>a1 a2. Q1 a1 \<Longrightarrow> Q2 a2 \<Longrightarrow> Q (a1 @ a2)"
  shows "consumes (seq m1 m2) Q"
proof (rule consumesI)
  fix s r assume "r \<in> set (seq m1 m2 s)"
  then obtain s' where s': "s' \<in> set (m1 s)" "r \<in> set (m2 s')"
    by (auto simp: seq_def)
  obtain a1 where a1: "s = a1 @ s'" "Q1 a1"
    using consumesD [OF assms(1) s'(1)] by blast
  obtain a2 where a2: "s' = a2 @ r" "Q2 a2"
    using consumesD [OF assms(2) s'(2)] by blast
  have "s = (a1 @ a2) @ r" "Q (a1 @ a2)"
    using a1 a2 assms(3) by simp_all
  then show "\<exists>a. s = a @ r \<and> Q a"
    by blast
qed




lemma nlFree_append: "nlFree a \<Longrightarrow> nlFree b \<Longrightarrow> nlFree (a @ b)"
  by (simp add: nlFree_def)





lemma phrase_then_phrase:
  "consumes m nlFree \<Longrightarrow> consumes m' nlFree \<Longrightarrow> consumes (seq m m') nlFree"
  by (rule consumes_seq [where ?Q1.0 = nlFree and ?Q2.0 = nlFree])
    (simp_all add: nlFree_append)










lemma replace_first_match:
  "m (c # s) = r # rs \<Longrightarrow> replace_first m (c # s) = r"
  by simp





























lemma nonWhite_Nil [simp]: "nonWhite [] = []"
  by (simp add: nonWhite_def)

lemma nonWhite_append [simp]: "nonWhite (a @ b) = nonWhite a @ nonWhite b"
  by (simp add: nonWhite_def)

lemma nonWhite_Cons: "nonWhite (c # s) = (if isWhiteSpace c then nonWhite s else c # nonWhite s)"
  by (simp add: nonWhite_def)


lemma nonWhite_nl [simp]: "nonWhite (nl # s) = nonWhite s"
  by (simp add: nonWhite_Cons nl_ws)












































end
